theory Spec2Isabelle
  imports Main "HOL-Library.Sublist"
begin

section \<open>Python values and string primitives\<close>

text \<open>
  A Python string is modelled by its UTF-8 encoding, a \<open>string\<close> (a list of 8-bit
  characters): an ASCII character is one byte, any other character is the two to four
  bytes of its encoding (the bullet of the templates, the check mark of the batch tool,
  a no-break space in a cell). Exceptions are values: a function that can raise returns
  \<open>exn + 'a\<close>, with \<open>Inl\<close> the exception raised.
\<close>

datatype exn =
    HTTPException int string
  | Exception string
  | ValueError string
  | IndexError string
  | KeyError string
  | OverflowError string
  | LibraryError string

definition and_then :: "exn + 'a \<Rightarrow> ('a \<Rightarrow> exn + 'b) \<Rightarrow> exn + 'b" where
  "and_then m f = (case m of Inl e \<Rightarrow> Inl e | Inr x \<Rightarrow> f x)"

text \<open>Truthiness of an \<open>Optional[str]\<close>: \<open>None\<close> and the empty string are falsy.\<close>

definition truthy :: "string option \<Rightarrow> bool" where
  "truthy v = (case v of None \<Rightarrow> False | Some s \<Rightarrow> s \<noteq> [])"

definition py_or :: "string option \<Rightarrow> string option \<Rightarrow> string option" where
  "py_or a b = (if truthy a then a else b)"

text \<open>\<open>a or d\<close> where \<open>d\<close> is a non-empty string literal: the result is a string.\<close>

definition or_default :: "string option \<Rightarrow> string \<Rightarrow> string" where
  "or_default a d = (case a of None \<Rightarrow> d | Some s \<Rightarrow> if s = [] then d else s)"

text \<open>
  \<open>str_find sep s\<close> cuts \<open>s\<close> at the leftmost occurrence of \<open>sep\<close> (Python's
  \<open>str.partition\<close>): the text before it and the text after it.
\<close>

fun str_find :: "string \<Rightarrow> string \<Rightarrow> (string \<times> string) option" where
  "str_find sep [] = (if sep = [] then Some ([], []) else None)"
| "str_find sep (c # cs) =
     (if prefix sep (c # cs) then Some ([], drop (length sep) (c # cs))
      else (case str_find sep cs of None \<Rightarrow> None | Some (a, b) \<Rightarrow> Some (c # a, b)))"

text \<open>The substring test \<open>sub in s\<close>.\<close>

definition py_in :: "string \<Rightarrow> string \<Rightarrow> bool" where
  "py_in sub s = (str_find sub s \<noteq> None)"

text \<open>
  \<open>s.split(sep)\<close>: cut at the leftmost occurrence, continue after it. Python raises
  \<open>ValueError\<close> on an empty separator.
\<close>

function split_parts :: "string \<Rightarrow> string \<Rightarrow> string list" where
  "split_parts sep s =
     (if sep = [] then [s]
      else (case str_find sep s of None \<Rightarrow> [s] | Some (a, b) \<Rightarrow> a # split_parts sep b))"
  by pat_completeness auto
termination
proof (relation "measure (\<lambda>(sep, s). length s)", goal_cases)
  case 1
  show ?case by simp
next
  case (2 sep s x2 a b)
  have "\<And>a b. str_find sep s = Some (a, b) \<Longrightarrow> s = a @ sep @ b"
    by (induction s) (auto simp: prefix_def split: if_splits option.splits)
  with 2 show ?case by auto
qed

declare split_parts.simps [simp del]

definition py_split :: "string \<Rightarrow> string \<Rightarrow> exn + string list" where
  "py_split sep s = (if sep = [] then Inl (ValueError ''empty separator'') else Inr (split_parts sep s))"

text \<open>\<open>xs[i]\<close> for a non-negative literal index.\<close>

definition py_index :: "'a list \<Rightarrow> nat \<Rightarrow> exn + 'a" where
  "py_index xs i = (if i < length xs then Inr (xs ! i) else Inl (IndexError ''list index out of range''))"

text \<open>\<open>str(n)\<close> for an integer.\<close>

fun digits :: "nat \<Rightarrow> string" where
  "digits n =
     (if n < 10 then [''0123456789'' ! n]
      else digits (n div 10) @ [''0123456789'' ! (n mod 10)])"

declare digits.simps [simp del]

definition str_int :: "int \<Rightarrow> string" where
  "str_int i = (if i < 0 then CHR ''-'' # digits (nat (- i)) else digits (nat i))"

text \<open>
  \<open>s.strip()\<close> removes, at both ends, the characters for which \<open>str.isspace\<close> holds.
  These are 29 code points: the ASCII controls U+0009 to U+000D and U+001C to U+001F,
  the space U+0020, U+0085, the no-break space U+00A0, U+1680, U+2000 to U+200A,
  U+2028, U+2029, U+202F, U+205F and the ideographic space U+3000. \<open>whitespace\<close> lists
  their UTF-8 encodings in this order, and \<open>strip\<close> removes such byte sequences from the
  front, then from the back, of the encoded string.
\<close>

definition whitespace :: "string list" where
  "whitespace =
     [[CHR 0x09], [CHR 0x0A], [CHR 0x0B], [CHR 0x0C], [CHR 0x0D],
      [CHR 0x1C], [CHR 0x1D], [CHR 0x1E], [CHR 0x1F], [CHR 0x20],
      [CHR 0xC2, CHR 0x85], [CHR 0xC2, CHR 0xA0], [CHR 0xE1, CHR 0x9A, CHR 0x80],
      [CHR 0xE2, CHR 0x80, CHR 0x80], [CHR 0xE2, CHR 0x80, CHR 0x81],
      [CHR 0xE2, CHR 0x80, CHR 0x82], [CHR 0xE2, CHR 0x80, CHR 0x83],
      [CHR 0xE2, CHR 0x80, CHR 0x84], [CHR 0xE2, CHR 0x80, CHR 0x85],
      [CHR 0xE2, CHR 0x80, CHR 0x86], [CHR 0xE2, CHR 0x80, CHR 0x87],
      [CHR 0xE2, CHR 0x80, CHR 0x88], [CHR 0xE2, CHR 0x80, CHR 0x89],
      [CHR 0xE2, CHR 0x80, CHR 0x8A], [CHR 0xE2, CHR 0x80, CHR 0xA8],
      [CHR 0xE2, CHR 0x80, CHR 0xA9], [CHR 0xE2, CHR 0x80, CHR 0xAF],
      [CHR 0xE2, CHR 0x81, CHR 0x9F], [CHR 0xE3, CHR 0x80, CHR 0x80]]"

text \<open>
  \<open>strip_prefixes ps s\<close> removes from the front of \<open>s\<close>, for as long as there is one, a
  sequence of \<open>ps\<close>.
\<close>

function strip_prefixes :: "string list \<Rightarrow> string \<Rightarrow> string" where
  "strip_prefixes ps s =
     (case List.find (\<lambda>p. p \<noteq> [] \<and> prefix p s) ps of
        None \<Rightarrow> s
      | Some p \<Rightarrow> strip_prefixes ps (drop (length p) s))"
  by pat_completeness auto
termination
proof (relation "measure (\<lambda>(ps, s). length s)", goal_cases)
  case 1
  show ?case by simp
next
  case (2 ps s p)
  then have "p \<noteq> [] \<and> prefix p s" by (auto simp: find_Some_iff)
  then show ?case by (auto simp: prefix_def)
qed

declare strip_prefixes.simps [simp del]

definition py_strip :: "string \<Rightarrow> string" where
  "py_strip s = rev (strip_prefixes (map rev whitespace) (rev (strip_prefixes whitespace s)))"


section \<open>The environment: configuration, network and library calls\<close>

record response =
  status_code :: int
  resp_text :: string

record message =
  msg_from :: "string option"
  msg_to :: string
  msg_subject :: string
  msg_body :: string

text \<open>
  One SMTP session of the source: \<open>SMTP_SSL\<close>, \<open>login(user, password)\<close>,
  \<open>send_message(msg)\<close>.
\<close>

record smtp_attempt =
  login_user :: "string option"
  login_password :: "string option"
  mail :: message

datatype smtp_result = Delivered | SMTPAuthenticationError string | SMTPFailure string

datatype cell = NaN | Cell string

text \<open>
  The environment of one run. \<open>GMAIL_ADDRESS\<close> and \<open>GMAIL_APP_PASSWORD\<close> are the module
  globals read once with \<open>os.getenv\<close>. The network and the libraries are not code of
  this repository, so they are parameters:
  \<^item> \<open>requests_get\<close> answers a GET, given the URLs requested before, with a response or
    with the exception \<open>requests.get\<close> raises;
  \<^item> \<open>smtp_server\<close> answers one SMTP session, given the sessions attempted before;
    both failures carry \<open>str(e)\<close> of the exception \<open>e\<close> raised inside the
    \<open>try\<close> block, \<open>SMTPFailure\<close> standing for every exception other than the
    authentication error;
  \<^item> \<open>read_csv\<close> is \<open>pd.read_csv(StringIO(csv_data), header=None)\<close> followed by
    \<open>iterrows\<close>: the rows of the frame, each a list of cells, \<open>NaN\<close> for a missing
    value and \<open>Cell s\<close> for a value \<open>v\<close> with \<open>str(v) = s\<close>, or the exception pandas
    raises. What pandas makes of the text of a cell is its own: an empty cell and a
    missing-value marker such as \<open>NA\<close> are missing values, and the cells of a numeric
    column are numbers;
  \<^item> \<open>str_format\<close> is \<open>template.format(**kwargs)\<close>, the keyword arguments in call
    order;
  \<^item> \<open>time_sleep\<close> is \<open>time.sleep(seconds)\<close>: it returns (\<open>None\<close>) or raises, as it
    does with \<open>ValueError\<close> on a negative and with \<open>OverflowError\<close> on a too large
    number of seconds.
\<close>

record env =
  GMAIL_ADDRESS :: "string option"
  GMAIL_APP_PASSWORD :: "string option"
  requests_get :: "string list \<Rightarrow> string \<Rightarrow> exn + response"
  smtp_server :: "smtp_attempt list \<Rightarrow> smtp_attempt \<Rightarrow> smtp_result"
  read_csv :: "string \<Rightarrow> exn + cell list list"
  str_format :: "string \<Rightarrow> (string \<times> string option) list \<Rightarrow> exn + string"
  time_sleep :: "int \<Rightarrow> exn option"

text \<open>
  The effects of a run: the URLs requested, the SMTP sessions attempted and the strings
  printed, each in order.
\<close>

record world =
  http_log :: "string list"
  smtp_log :: "smtp_attempt list"
  stdout :: "string list"


section \<open>Source loader\<close>

text \<open>
  \<open>fetch_google_sheet\<close>, the same lines in \<open>cold_mailer.py\<close> (59 to 70) and \<open>api.py\<close>
  (105 to 114): the document id, the tab id and the export URL.
\<close>

definition sheet_id_of :: "string \<Rightarrow> exn + string" where
  "sheet_id_of sheet_url =
     (if py_in ''/d/'' sheet_url
      then and_then (py_split ''/d/'' sheet_url) (\<lambda>p.
           and_then (py_index p 1) (\<lambda>q.
           and_then (py_split ''/'' q) (\<lambda>r. py_index r 0)))
      else Inr sheet_url)"

definition gid_of :: "string \<Rightarrow> exn + string" where
  "gid_of sheet_url =
     (if py_in ''gid='' sheet_url
      then and_then (py_split ''gid='' sheet_url) (\<lambda>p.
           and_then (py_index p 1) (\<lambda>q.
           and_then (py_split ''#'' q) (\<lambda>r.
           and_then (py_index r 0) (\<lambda>t.
           and_then (py_split ''&'' t) (\<lambda>u. py_index u 0)))))
      else Inr ''0'')"

definition export_url_of :: "string \<Rightarrow> string \<Rightarrow> string" where
  "export_url_of sheet_id gid =
     ''https://docs.google.com/spreadsheets/d/'' @ sheet_id @ ''/export?format=csv&gid='' @ gid"

text \<open>The loader of \<open>api.py\<close>.\<close>

definition fetch_google_sheet :: "env \<Rightarrow> world \<Rightarrow> string \<Rightarrow> (exn + string) \<times> world" where
  "fetch_google_sheet env w sheet_url =
     (case sheet_id_of sheet_url of
        Inl e \<Rightarrow> (Inl e, w)
      | Inr sheet_id \<Rightarrow>
          (case gid_of sheet_url of
             Inl e \<Rightarrow> (Inl e, w)
           | Inr gid \<Rightarrow>
               (let export_url = export_url_of sheet_id gid;
                    w' = w\<lparr>http_log := http_log w @ [export_url]\<rparr>
                in case requests_get env (http_log w) export_url of
                     Inl e \<Rightarrow> (Inl e, w')
                   | Inr response \<Rightarrow>
                       if status_code response \<noteq> 200
                       then (Inl (HTTPException 400 ''Failed to fetch Google Sheet''), w')
                       else (Inr (resp_text response), w'))))"

text \<open>The loader of \<open>cold_mailer.py\<close>: it prints a line and raises a plain \<open>Exception\<close>.\<close>

definition fetch_google_sheet_cli :: "env \<Rightarrow> world \<Rightarrow> string \<Rightarrow> (exn + string) \<times> world" where
  "fetch_google_sheet_cli env w sheet_url =
     (case sheet_id_of sheet_url of
        Inl e \<Rightarrow> (Inl e, w)
      | Inr sheet_id \<Rightarrow>
          (case gid_of sheet_url of
             Inl e \<Rightarrow> (Inl e, w)
           | Inr gid \<Rightarrow>
               (let export_url = export_url_of sheet_id gid;
                    w' = w\<lparr>stdout := stdout w @ [''Fetching data from Google Sheet...''],
                            http_log := http_log w @ [export_url]\<rparr>
                in case requests_get env (http_log w) export_url of
                     Inl e \<Rightarrow> (Inl e, w')
                   | Inr response \<Rightarrow>
                       if status_code response \<noteq> 200
                       then (Inl (Exception (''Failed to fetch Google Sheet. Status code: ''
                                     @ str_int (status_code response))), w')
                       else (Inr (resp_text response), w'))))"


section \<open>Contact extractor\<close>

record contact =
  email :: string
  hr_name :: string
  company_name :: string

text \<open>
  \<open>parse_contacts\<close>, the same lines in \<open>cold_mailer.py\<close> (86 to 114) and \<open>api.py\<close>
  (125 to 149). \<open>row_values\<close> is the list comprehension that collects the present
  values of a row.
\<close>

fun cell_values :: "cell \<Rightarrow> string list" where
  "cell_values NaN = []"
| "cell_values (Cell s) = (if py_strip s \<noteq> [] then [py_strip s] else [])"

definition row_values :: "cell list \<Rightarrow> string list" where
  "row_values row = concat (map cell_values row)"

text \<open>The inner loop: the first value that contains \<open>@\<close>, \<open>None\<close> when the loop ends without a break.\<close>

fun find_email :: "string list \<Rightarrow> string option" where
  "find_email [] = None"
| "find_email (val # rest) = (if py_in ''@'' val then Some val else find_email rest)"

text \<open>The body of the loop over the rows: what one row does to the list \<open>contacts\<close>.\<close>

definition row_step :: "cell list \<Rightarrow> contact list \<Rightarrow> contact list" where
  "row_step row contacts =
     (let vals = row_values row
      in if length vals \<ge> 2
         then (let company = (case vals of [] \<Rightarrow> ''Your Company'' | v # _ \<Rightarrow> v);
                   found = find_email vals;
                   name = (if Some (last vals) \<noteq> found then last vals else ''Hiring Manager'')
               in case found of
                    None \<Rightarrow> contacts
                  | Some e \<Rightarrow>
                      if e \<noteq> []
                      then contacts @ [\<lparr>email = e, hr_name = name, company_name = company\<rparr>]
                      else contacts)
         else contacts)"

fun rows_loop :: "cell list list \<Rightarrow> contact list \<Rightarrow> contact list" where
  "rows_loop [] contacts = contacts"
| "rows_loop (row # rows) contacts = rows_loop rows (row_step row contacts)"

definition parse_contacts :: "env \<Rightarrow> string \<Rightarrow> exn + contact list" where
  "parse_contacts env csv_data = and_then (read_csv env csv_data) (\<lambda>df. Inr (rows_loop df []))"


section \<open>Templates\<close>

definition bullet :: string where
  "bullet = [CHR 0xE2, CHR 0x80, CHR 0xA2]"

definition DEFAULT_SUBJECT :: string where
  "DEFAULT_SUBJECT = ''Application for SDE-1 Position at {company_name}''"

definition DEFAULT_BODY :: string where
  "DEFAULT_BODY =
     ''Dear {hr_name},\<newline>\<newline>''
     @ ''I hope this email finds you well. I am writing to express my interest in the Software Developer Engineer (SDE-1) position at {company_name}.\<newline>\<newline>''
     @ ''I am a passionate software developer with strong problem-solving skills and experience in:\<newline>''
     @ bullet @ '' Data Structures & Algorithms\<newline>''
     @ bullet @ '' Python, Java, JavaScript\<newline>''
     @ bullet @ '' Web Development (React, Node.js)\<newline>''
     @ bullet @ '' Database Management (SQL, MongoDB)\<newline>''
     @ bullet @ '' Git and Version Control\<newline>\<newline>''
     @ ''I am eager to contribute to {company_name}'' @ [CHR 0x27]
     @ ''s innovative projects and would be grateful for the opportunity to discuss how my skills align with your team''
     @ [CHR 0x27] @ ''s needs.\<newline>\<newline>''
     @ ''Thank you for your time and consideration.\<newline>\<newline>''
     @ ''Best regards,\<newline>[Your Name]\<newline>Email: {sender_email}\<newline>''"

definition EMAIL_SUBJECT :: string where
  "EMAIL_SUBJECT = ''Application for SDE-1 Position at {company_name}''"

definition EMAIL_BODY_TEMPLATE :: string where
  "EMAIL_BODY_TEMPLATE =
     ''Dear {hr_name},\<newline>\<newline>''
     @ ''I hope this email finds you well. I am writing to express my interest in the Software Developer Engineer (SDE-1) position at {company_name}.\<newline>\<newline>''
     @ ''I am a passionate software developer with strong problem-solving skills and experience in:\<newline>''
     @ bullet @ '' Data Structures & Algorithms\<newline>''
     @ bullet @ '' Python, Java, JavaScript\<newline>''
     @ bullet @ '' Web Development (React, Node.js)\<newline>''
     @ bullet @ '' Database Management (SQL, MongoDB)\<newline>''
     @ bullet @ '' Git and Version Control\<newline>\<newline>''
     @ ''I am eager to contribute to {company_name}'' @ [CHR 0x27]
     @ ''s innovative projects and would be grateful for the opportunity to discuss how my skills align with your team''
     @ [CHR 0x27] @ ''s needs.\<newline>\<newline>''
     @ ''I have attached my resume for your reference. I would appreciate the opportunity to discuss my candidacy further.\<newline>\<newline>''
     @ ''Thank you for your time and consideration.\<newline>\<newline>''
     @ ''Best regards,\<newline>[Your Name]\<newline>Email: {sender_email}\<newline>''
     @ ''Phone: [Your Phone Number]\<newline>LinkedIn: [Your LinkedIn Profile]\<newline>GitHub: [Your GitHub Profile]\<newline>''"

text \<open>
  A format function for the witnesses: \<open>str.format\<close> with keyword arguments only, on
  templates whose replacement fields are plain names (\<open>{name}\<close>) and whose doubled
  braces are literal braces. A field that is not among the keyword arguments raises
  \<open>KeyError\<close>; an empty field or a field of ASCII digits is a positional one and raises
  \<open>IndexError\<close> with its index, as there is no positional argument (\<open>ValueError\<close> when
  the digits exceed the largest index, \<open>2^63 - 1\<close>); a single brace or an unclosed field
  raises \<open>ValueError\<close>; \<open>None\<close> is rendered as \<open>None\<close>. The texts of the exceptions
  are those of CPython 3.8 and later. Templates with conversions (\<open>!r\<close>), format
  specifications (\<open>:>10\<close>), attribute or index access or nested braces are outside
  this function: the witnesses use it on the default templates only, which have none.
  The second argument is the field name read so far, \<open>None\<close> outside a field.
\<close>

definition quoted :: "string \<Rightarrow> string" where
  "quoted s = [CHR 0x27] @ s @ [CHR 0x27]"

definition decimal :: "string \<Rightarrow> int" where
  "decimal ds = foldl (\<lambda>n d. 10 * n + (of_char d - 48)) 0 ds"

definition py_str :: "string option \<Rightarrow> string" where
  "py_str v = (case v of None \<Rightarrow> ''None'' | Some s \<Rightarrow> s)"

definition prepend :: "string \<Rightarrow> exn + string \<Rightarrow> exn + string" where
  "prepend p r = (case r of Inl e \<Rightarrow> Inl e | Inr s \<Rightarrow> Inr (p @ s))"

fun plain_format_from :: "(string \<times> string option) list \<Rightarrow> string option \<Rightarrow> string \<Rightarrow> exn + string" where
  "plain_format_from kwargs None [] = Inr []"
| "plain_format_from kwargs (Some name) [] =
     Inl (ValueError (''expected '' @ quoted ''}'' @ '' before end of string''))"
| "plain_format_from kwargs None [c] =
     (if c = CHR ''{''
      then Inl (ValueError (''Single '' @ quoted ''{'' @ '' encountered in format string''))
      else if c = CHR ''}''
      then Inl (ValueError (''Single '' @ quoted ''}'' @ '' encountered in format string''))
      else Inr [c])"
| "plain_format_from kwargs None (c # d # rest) =
     (if c = CHR ''{'' then
        (if d = CHR ''{'' then prepend ''{'' (plain_format_from kwargs None rest)
         else plain_format_from kwargs (Some []) (d # rest))
      else if c = CHR ''}'' then
        (if d = CHR ''}'' then prepend ''}'' (plain_format_from kwargs None rest)
         else Inl (ValueError (''Single '' @ quoted ''}'' @ '' encountered in format string'')))
      else prepend [c] (plain_format_from kwargs None (d # rest)))"
| "plain_format_from kwargs (Some name) (c # rest) =
     (if c = CHR ''}'' then
        (if list_all (\<lambda>d. d \<in> set ''0123456789'') name
         then (if decimal name > 9223372036854775807
               then Inl (ValueError ''Too many decimal digits in format string'')
               else Inl (IndexError (''Replacement index '' @ str_int (decimal name)
                           @ '' out of range for positional args tuple'')))
         else (case map_of kwargs name of
                 None \<Rightarrow> Inl (KeyError name)
               | Some v \<Rightarrow> prepend (py_str v) (plain_format_from kwargs None rest)))
      else plain_format_from kwargs (Some (name @ [c])) rest)"

definition plain_format :: "string \<Rightarrow> (string \<times> string option) list \<Rightarrow> exn + string" where
  "plain_format template kwargs = plain_format_from kwargs None template"


section \<open>Service API (\<open>api.py\<close>)\<close>

record single_email_request =
  req_to_email :: string
  req_hr_name :: string
  req_company_name :: string
  req_subject :: "string option"
  req_body :: "string option"
  req_sender_email :: "string option"
  req_sender_password :: "string option"

record google_sheet_request =
  sheet_url :: string
  sheet_subject :: "string option"
  sheet_body :: "string option"

record email_preview =
  preview_to_email :: string
  preview_subject :: string
  preview_body :: string

record send_result =
  result_success :: bool
  result_message :: string
  result_email :: string

text \<open>
  \<open>send_email\<close> of \<open>api.py\<close>: every exception of the SMTP session is turned into an
  \<open>HTTPException\<close>.
\<close>

definition send_email ::
  "env \<Rightarrow> world \<Rightarrow> string \<Rightarrow> string \<Rightarrow> string \<Rightarrow> string option \<Rightarrow> string option \<Rightarrow> (exn + bool) \<times> world" where
  "send_email env w to_email subject body sender_email sender_password =
     (let gmail_addr = py_or sender_email (GMAIL_ADDRESS env);
          gmail_pass = py_or sender_password (GMAIL_APP_PASSWORD env)
      in if \<not> truthy gmail_addr \<or> \<not> truthy gmail_pass
         then (Inl (HTTPException 400
                 ''Gmail credentials required. Please provide your email and app password.''), w)
         else (let attempt = \<lparr>login_user = gmail_addr, login_password = gmail_pass,
                              mail = \<lparr>msg_from = gmail_addr, msg_to = to_email,
                                       msg_subject = subject, msg_body = body\<rparr>\<rparr>;
                   w' = w\<lparr>smtp_log := smtp_log w @ [attempt]\<rparr>
               in case smtp_server env (smtp_log w) attempt of
                    Delivered \<Rightarrow> (Inr True, w')
                  | SMTPAuthenticationError _ \<Rightarrow>
                      (Inl (HTTPException 401
                         ''Gmail authentication failed. Check your email and app password.''), w')
                  | SMTPFailure e \<Rightarrow>
                      (Inl (HTTPException 500 (''Failed to send email: '' @ e)), w')))"

definition preview_email :: "env \<Rightarrow> single_email_request \<Rightarrow> exn + email_preview" where
  "preview_email env request =
     (let sender = or_default (py_or (req_sender_email request) (GMAIL_ADDRESS env))
                     ''your.email@gmail.com''
      in and_then (str_format env (or_default (req_subject request) DEFAULT_SUBJECT)
                     [(''company_name'', Some (req_company_name request)),
                      (''hr_name'', Some (req_hr_name request))]) (\<lambda>subject.
         and_then (str_format env (or_default (req_body request) DEFAULT_BODY)
                     [(''company_name'', Some (req_company_name request)),
                      (''hr_name'', Some (req_hr_name request)),
                      (''sender_email'', Some sender)]) (\<lambda>body.
         Inr \<lparr>preview_to_email = req_to_email request, preview_subject = subject,
              preview_body = body\<rparr>)))"

definition send_single_email ::
  "env \<Rightarrow> world \<Rightarrow> single_email_request \<Rightarrow> (exn + send_result) \<times> world" where
  "send_single_email env w request =
     (let sender = py_or (req_sender_email request) (GMAIL_ADDRESS env);
          password = py_or (req_sender_password request) (GMAIL_APP_PASSWORD env)
      in if \<not> truthy sender \<or> \<not> truthy password
         then (Inl (HTTPException 400 ''Please provide your Gmail address and App Password''), w)
         else
           (case str_format env (or_default (req_subject request) DEFAULT_SUBJECT)
                   [(''company_name'', Some (req_company_name request)),
                    (''hr_name'', Some (req_hr_name request))] of
              Inl e \<Rightarrow> (Inl e, w)
            | Inr subject \<Rightarrow>
                (case str_format env (or_default (req_body request) DEFAULT_BODY)
                        [(''company_name'', Some (req_company_name request)),
                         (''hr_name'', Some (req_hr_name request)),
                         (''sender_email'', sender)] of
                   Inl e \<Rightarrow> (Inl e, w)
                 | Inr body \<Rightarrow>
                     (case send_email env w (req_to_email request) subject body sender password of
                        (Inl e, w') \<Rightarrow> (Inl e, w')
                      | (Inr _, w') \<Rightarrow>
                          (Inr \<lparr>result_success = True,
                                result_message = ''Email sent to '' @ req_hr_name request
                                   @ '' at '' @ req_company_name request,
                                result_email = req_to_email request\<rparr>, w')))))"

definition fetch_contacts ::
  "env \<Rightarrow> world \<Rightarrow> google_sheet_request \<Rightarrow> (exn + contact list) \<times> world" where
  "fetch_contacts env w request =
     (case fetch_google_sheet env w (sheet_url request) of
        (Inl e, w') \<Rightarrow> (Inl e, w')
      | (Inr csv_data, w') \<Rightarrow>
          (case parse_contacts env csv_data of
             Inl e \<Rightarrow> (Inl e, w')
           | Inr contacts \<Rightarrow>
               if contacts = []
               then (Inl (HTTPException 404 ''No contacts found in the sheet''), w')
               else (Inr contacts, w')))"

text \<open>
  One entry of \<open>results\<close>: the dictionary of a successful send has the keys \<open>success\<close>,
  \<open>email\<close>, \<open>name\<close> and \<open>company\<close>, that of a failed one \<open>success\<close>, \<open>email\<close> and
  \<open>error\<close>.
\<close>

datatype outcome =
    Sent string string string
  | Failed string string

fun outcome_success :: "outcome \<Rightarrow> bool" where
  "outcome_success (Sent _ _ _) = True"
| "outcome_success (Failed _ _) = False"

fun outcome_email :: "outcome \<Rightarrow> string" where
  "outcome_email (Sent e _ _) = e"
| "outcome_email (Failed e _) = e"

text \<open>
  \<open>str(e)\<close> of a caught exception; for an \<open>HTTPException\<close> it is Starlette's
  \<open>status_code: detail\<close>.
\<close>

fun exn_str :: "exn \<Rightarrow> string" where
  "exn_str (HTTPException code detail) = str_int code @ '': '' @ detail"
| "exn_str (Exception m) = m"
| "exn_str (ValueError m) = m"
| "exn_str (IndexError m) = m"
| "exn_str (KeyError k) = [CHR 0x27] @ k @ [CHR 0x27]"
| "exn_str (OverflowError m) = m"
| "exn_str (LibraryError m) = m"

record summary =
  summary_total :: int
  summary_success :: int
  summary_failed :: int
  summary_results :: "outcome list"

text \<open>
  The body of the loop of \<open>send_from_google_sheet\<close> (lines 282 to 305): the two
  templates are rendered outside the \<open>try\<close>, \<open>send_email\<close> is called inside it, and
  \<open>except Exception\<close> catches whatever it raises.
\<close>

definition send_step ::
  "env \<Rightarrow> google_sheet_request \<Rightarrow> world \<Rightarrow> contact \<Rightarrow> outcome list \<Rightarrow> (exn + outcome list) \<times> world" where
  "send_step env request w contact results =
     (case str_format env (or_default (sheet_subject request) DEFAULT_SUBJECT)
             [(''company_name'', Some (company_name contact)),
              (''hr_name'', Some (hr_name contact))] of
        Inl e \<Rightarrow> (Inl e, w)
      | Inr subject \<Rightarrow>
          (case str_format env (or_default (sheet_body request) DEFAULT_BODY)
                  [(''company_name'', Some (company_name contact)),
                   (''hr_name'', Some (hr_name contact)),
                   (''sender_email'', GMAIL_ADDRESS env)] of
             Inl e \<Rightarrow> (Inl e, w)
           | Inr body \<Rightarrow>
               (case send_email env w (email contact) subject body None None of
                  (Inr _, w') \<Rightarrow>
                    (Inr (results @ [Sent (email contact) (hr_name contact)
                                       (company_name contact)]), w')
                | (Inl e, w') \<Rightarrow>
                    (Inr (results @ [Failed (email contact) (exn_str e)]), w'))))"

text \<open>The loop itself (lines 280 to 305).\<close>

fun send_loop ::
  "env \<Rightarrow> google_sheet_request \<Rightarrow> world \<Rightarrow> contact list \<Rightarrow> outcome list \<Rightarrow> (exn + outcome list) \<times> world" where
  "send_loop env request w [] results = (Inr results, w)"
| "send_loop env request w (contact # rest) results =
     (case send_step env request w contact results of
        (Inl e, w') \<Rightarrow> (Inl e, w')
      | (Inr results', w') \<Rightarrow> send_loop env request w' rest results')"

text \<open>Lines 307 to 314: the summary.\<close>

definition summarize :: "contact list \<Rightarrow> outcome list \<Rightarrow> summary" where
  "summarize contacts results =
     (let success_count = sum_list (map (\<lambda>r. 1) (filter outcome_success results))
      in \<lparr>summary_total = int (length contacts), summary_success = success_count,
          summary_failed = int (length contacts) - success_count,
          summary_results = results\<rparr>)"

definition send_from_google_sheet ::
  "env \<Rightarrow> world \<Rightarrow> google_sheet_request \<Rightarrow> (exn + summary) \<times> world" where
  "send_from_google_sheet env w request =
     (if \<not> truthy (GMAIL_ADDRESS env) \<or> \<not> truthy (GMAIL_APP_PASSWORD env)
      then (Inl (HTTPException 500 ''Gmail credentials not configured''), w)
      else
        (case fetch_google_sheet env w (sheet_url request) of
           (Inl e, w') \<Rightarrow> (Inl e, w')
         | (Inr csv_data, w') \<Rightarrow>
             (case parse_contacts env csv_data of
                Inl e \<Rightarrow> (Inl e, w')
              | Inr contacts \<Rightarrow>
                  if contacts = []
                  then (Inl (HTTPException 404 ''No contacts found in the sheet''), w')
                  else
                    (case send_loop env request w' contacts [] of
                       (Inl e, w'') \<Rightarrow> (Inl e, w'')
                     | (Inr results, w'') \<Rightarrow> (Inr (summarize contacts results), w'')))))"

text \<open>
  The status the client sees: FastAPI answers an \<open>HTTPException\<close> with its status code
  and any other exception that leaves an endpoint with 500.
\<close>

fun status_of :: "exn \<Rightarrow> int" where
  "status_of (HTTPException code _) = code"
| "status_of _ = 500"


section \<open>Batch tool (\<open>cold_mailer.py\<close>)\<close>

definition check_mark :: string where
  "check_mark = [CHR 0xE2, CHR 0x9C, CHR 0x93]"

definition ballot_x :: string where
  "ballot_x = [CHR 0xE2, CHR 0x9C, CHR 0x97]"

text \<open>
  \<open>send_email\<close> of \<open>cold_mailer.py\<close>: the subject and the body are rendered before the
  branch on \<open>preview_only\<close>; every exception of the SMTP session is caught and gives
  \<open>False\<close>.
\<close>

definition send_email_cli ::
  "env \<Rightarrow> world \<Rightarrow> string \<Rightarrow> string \<Rightarrow> string \<Rightarrow> bool \<Rightarrow> (exn + bool) \<times> world" where
  "send_email_cli env w to_email name company preview_only =
     (case str_format env EMAIL_SUBJECT [(''company_name'', Some company)] of
        Inl e \<Rightarrow> (Inl e, w)
      | Inr subject \<Rightarrow>
          (case str_format env EMAIL_BODY_TEMPLATE
                  [(''hr_name'', Some name), (''company_name'', Some company),
                   (''sender_email'', GMAIL_ADDRESS env)] of
             Inl e \<Rightarrow> (Inl e, w)
           | Inr body \<Rightarrow>
               if preview_only
               then (Inr True,
                     w\<lparr>stdout := stdout w @
                         [''\<newline>'' @ replicate 60 (CHR ''=''), ''TO: '' @ to_email,
                          ''SUBJECT: '' @ subject, replicate 60 (CHR ''-''), body,
                          replicate 60 (CHR ''='')]\<rparr>)
               else
                 (let attempt = \<lparr>login_user = GMAIL_ADDRESS env,
                                  login_password = GMAIL_APP_PASSWORD env,
                                  mail = \<lparr>msg_from = GMAIL_ADDRESS env, msg_to = to_email,
                                           msg_subject = subject, msg_body = body\<rparr>\<rparr>;
                      w' = w\<lparr>smtp_log := smtp_log w @ [attempt]\<rparr>
                  in case smtp_server env (smtp_log w) attempt of
                       Delivered \<Rightarrow>
                         (Inr True,
                          w'\<lparr>stdout := stdout w' @
                               [check_mark @ '' Email sent to '' @ name @ '' at '' @ company
                                  @ '' ('' @ to_email @ '')'']\<rparr>)
                     | SMTPAuthenticationError e \<Rightarrow>
                         (Inr False,
                          w'\<lparr>stdout := stdout w' @
                               [ballot_x @ '' Failed to send to '' @ to_email @ '': '' @ e]\<rparr>)
                     | SMTPFailure e \<Rightarrow>
                         (Inr False,
                          w'\<lparr>stdout := stdout w' @
                               [ballot_x @ '' Failed to send to '' @ to_email @ '': '' @ e]\<rparr>))))"

text \<open>
  The loop of \<open>main\<close> (lines 203 to 221) from index \<open>i\<close> on. Before every contact but
  the first, the send mode prints a line and calls \<open>time.sleep\<close> with \<open>--delay\<close>; an
  exception of that call leaves the loop.
\<close>

fun main_loop ::
  "env \<Rightarrow> bool \<Rightarrow> int \<Rightarrow> world \<Rightarrow> nat \<Rightarrow> contact list \<Rightarrow> int \<Rightarrow> int \<Rightarrow> (exn + int \<times> int) \<times> world" where
  "main_loop env preview delay w i [] success_count fail_count =
     (Inr (success_count, fail_count), w)"
| "main_loop env preview delay w i (contact # rest) success_count fail_count =
     (let waiting = (i > 0 \<and> \<not> preview);
          w1 = (if waiting
                then w\<lparr>stdout := stdout w @ [''Waiting '' @ str_int delay @ '' seconds...'']\<rparr>
                else w);
          slept = (if waiting then time_sleep env delay else None)
      in case slept of
           Some e \<Rightarrow> (Inl e, w1)
         | None \<Rightarrow>
           (case send_email_cli env w1 (email contact) (hr_name contact) (company_name contact)
                   preview of
              (Inl e, w2) \<Rightarrow> (Inl e, w2)
            | (Inr result, w2) \<Rightarrow>
                if result
                then main_loop env preview delay w2 (Suc i) rest (success_count + 1) fail_count
                else main_loop env preview delay w2 (Suc i) rest success_count (fail_count + 1)))"

text \<open>Lines 202 to 225 of \<open>main\<close>: the loop and the summary line.\<close>

definition main_dispatch ::
  "env \<Rightarrow> bool \<Rightarrow> int \<Rightarrow> world \<Rightarrow> contact list \<Rightarrow> (exn + int \<times> int) \<times> world" where
  "main_dispatch env preview delay w contacts =
     (case main_loop env preview delay w 0 contacts 0 0 of
        (Inl e, w') \<Rightarrow> (Inl e, w')
      | (Inr (success_count, fail_count), w') \<Rightarrow>
          (Inr (success_count, fail_count),
           w'\<lparr>stdout := stdout w' @
                [''\<newline>'' @ replicate 40 (CHR ''=''),
                 ''Summary: '' @ str_int success_count @ '' successful, ''
                   @ str_int fail_count @ '' failed'']\<rparr>))"


section \<open>The sheet reference as the specification words it\<close>

text \<open>
  Follows the specification's words, for comparison with \<open>sheet_id_of\<close> and \<open>gid_of\<close>:
  the document id is the substring between the first \<open>/d/\<close> and the next \<open>/\<close>, the
  whole reference when there is no \<open>/d/\<close>; the tab id is the substring after the first
  \<open>gid=\<close> up to the next \<open>&\<close> or \<open>#\<close>, and \<open>0\<close> when there is no \<open>gid=\<close>.
\<close>

definition spec_document_id :: "string \<Rightarrow> string" where
  "spec_document_id ref =
     (case str_find ''/d/'' ref of
        None \<Rightarrow> ref
      | Some (_, rest) \<Rightarrow> takeWhile (\<lambda>c. c \<noteq> CHR ''/'') rest)"

definition spec_tab_id :: "string \<Rightarrow> string" where
  "spec_tab_id ref =
     (case str_find ''gid='' ref of
        None \<Rightarrow> ''0''
      | Some (_, rest) \<Rightarrow> takeWhile (\<lambda>c. c \<noteq> CHR ''&'' \<and> c \<noteq> CHR ''#'') rest)"

text \<open>
  The text of \<open>s\<close> before the next occurrence of \<open>sep\<close>, all of \<open>s\<close> when there is
  none; and the tab id when a further \<open>gid=\<close> ends it as \<open>&\<close> and \<open>#\<close> do.
\<close>

definition before_next :: "string \<Rightarrow> string \<Rightarrow> string" where
  "before_next sep s = (case str_find sep s of None \<Rightarrow> s | Some (a, _) \<Rightarrow> a)"

definition tab_id_cut_at_gid :: "string \<Rightarrow> string" where
  "tab_id_cut_at_gid ref =
     (case str_find ''gid='' ref of
        None \<Rightarrow> ''0''
      | Some (_, rest) \<Rightarrow>
          takeWhile (\<lambda>c. c \<noteq> CHR ''&'' \<and> c \<noteq> CHR ''#'') (before_next ''gid='' rest))"


section \<open>The present values of a CSV row as the specification words them\<close>

text \<open>
  Follows the specification's words, for comparison with \<open>row_values\<close>: the non-empty,
  whitespace-trimmed cell values of one row of the CSV text, in column order, the cells
  being the texts between the commas of the line.
\<close>

definition spec_present_values :: "string \<Rightarrow> string list" where
  "spec_present_values line =
     filter (\<lambda>v. v \<noteq> []) (map py_strip (split_parts '','' line))"


section \<open>Conditions on the environment\<close>

text \<open>
  The templates of a batch request render for a contact: neither \<open>format\<close> call of the
  loop body raises. The same for the two \<open>format\<close> calls of the batch tool and for
  those of a single-send or preview request with a given sender.
\<close>

definition renders_ok :: "env \<Rightarrow> google_sheet_request \<Rightarrow> contact \<Rightarrow> bool" where
  "renders_ok env request contact =
     (\<not> isl (str_format env (or_default (sheet_subject request) DEFAULT_SUBJECT)
               [(''company_name'', Some (company_name contact)),
                (''hr_name'', Some (hr_name contact))])
      \<and> \<not> isl (str_format env (or_default (sheet_body request) DEFAULT_BODY)
               [(''company_name'', Some (company_name contact)),
                (''hr_name'', Some (hr_name contact)),
                (''sender_email'', GMAIL_ADDRESS env)]))"


definition renders_ok_single :: "env \<Rightarrow> single_email_request \<Rightarrow> string option \<Rightarrow> bool" where
  "renders_ok_single env request sender =
     (\<not> isl (str_format env (or_default (req_subject request) DEFAULT_SUBJECT)
               [(''company_name'', Some (req_company_name request)),
                (''hr_name'', Some (req_hr_name request))])
      \<and> \<not> isl (str_format env (or_default (req_body request) DEFAULT_BODY)
               [(''company_name'', Some (req_company_name request)),
                (''hr_name'', Some (req_hr_name request)),
                (''sender_email'', sender)]))"

fun is_auth_error :: "smtp_result \<Rightarrow> bool" where
  "is_auth_error (SMTPAuthenticationError _) = True"
| "is_auth_error _ = False"

fun is_other_failure :: "smtp_result \<Rightarrow> bool" where
  "is_other_failure (SMTPFailure _) = True"
| "is_other_failure _ = False"

text \<open>
  The answers of the server to the sessions \<open>attempts\<close>, made in this order after the
  sessions of \<open>log\<close>.
\<close>

fun answers :: "env \<Rightarrow> smtp_attempt list \<Rightarrow> smtp_attempt list \<Rightarrow> smtp_result list" where
  "answers env log [] = []"
| "answers env log (attempt # attempts) =
     smtp_server env log attempt # answers env (log @ [attempt]) attempts"

text \<open>
  The request that previews the message of one contact of a batch: the contact's fields
  and the batch request's templates, without a sender of its own.
\<close>

definition preview_request_of :: "google_sheet_request \<Rightarrow> contact \<Rightarrow> single_email_request" where
  "preview_request_of request contact =
     \<lparr>req_to_email = email contact, req_hr_name = hr_name contact,
      req_company_name = company_name contact, req_subject = sheet_subject request,
      req_body = sheet_body request, req_sender_email = None, req_sender_password = None\<rparr>"


section \<open>Concrete environments for the witnesses\<close>

text \<open>
  A two-row sheet, a sheet without any contact and two sheets with the cell \<open>NA\<close>, with
  the frames pandas reads from them (\<open>NA\<close> is one of its missing-value markers); every
  other text stands for an empty document, on which pandas raises.
\<close>

definition demo_csv :: string where
  "demo_csv = ''Acme,a@b.com,Jane Doe\<newline>Initech,,hr@initech.com\<newline>''"

definition demo_csv_no_contact :: string where
  "demo_csv_no_contact = ''Acme,Jane Doe\<newline>''"

definition demo_csv_na_first :: string where
  "demo_csv_na_first = ''NA,a@b.com,Jane Doe\<newline>''"

definition demo_csv_na_last :: string where
  "demo_csv_na_last = ''Acme,a@b.com,NA\<newline>''"

definition demo_read_csv :: "string \<Rightarrow> exn + cell list list" where
  "demo_read_csv csv_data =
     (if csv_data = demo_csv
      then Inr [[Cell ''Acme'', Cell ''a@b.com'', Cell ''Jane Doe''],
                [Cell ''Initech'', NaN, Cell ''hr@initech.com'']]
      else if csv_data = demo_csv_no_contact
      then Inr [[Cell ''Acme'', Cell ''Jane Doe'']]
      else if csv_data = demo_csv_na_first
      then Inr [[NaN, Cell ''a@b.com'', Cell ''Jane Doe'']]
      else if csv_data = demo_csv_na_last
      then Inr [[Cell ''Acme'', Cell ''a@b.com'', NaN]]
      else Inl (LibraryError ''EmptyDataError: No columns to parse from file''))"

text \<open>
  \<open>time.sleep\<close> where the largest time is \<open>2^63 - 1\<close> nanoseconds.
\<close>

definition demo_sleep :: "int \<Rightarrow> exn option" where
  "demo_sleep seconds =
     (if seconds < 0 then Some (ValueError ''sleep length must be non-negative'')
      else if seconds > 9223372036
      then Some (OverflowError ''timestamp too large to convert to C _PyTime_t'')
      else None)"

text \<open>
  An environment with the given credentials, in which every GET is answered with the
  given status and body and every SMTP session with the given result.
\<close>

definition demo_env :: "string option \<Rightarrow> string option \<Rightarrow> int \<Rightarrow> string \<Rightarrow> smtp_result \<Rightarrow> env" where
  "demo_env address password code body_text smtp =
     \<lparr>GMAIL_ADDRESS = address, GMAIL_APP_PASSWORD = password,
      requests_get = (\<lambda>log url. Inr \<lparr>status_code = code, resp_text = body_text\<rparr>),
      smtp_server = (\<lambda>log attempt. smtp),
      read_csv = demo_read_csv,
      str_format = plain_format,
      time_sleep = demo_sleep\<rparr>"

text \<open>
  Two servers whose answer depends on the session: one accepts a single password, one
  refuses a single recipient. And the environment of the demo sheet with the address
  \<open>me@gmail.com\<close>, a given password and a given server.
\<close>

definition password_server :: "string \<Rightarrow> smtp_attempt list \<Rightarrow> smtp_attempt \<Rightarrow> smtp_result" where
  "password_server good log attempt =
     (if login_password attempt = Some good then Delivered
      else SMTPAuthenticationError ''(535, Username and Password not accepted)'')"

definition recipient_server :: "string \<Rightarrow> smtp_attempt list \<Rightarrow> smtp_attempt \<Rightarrow> smtp_result" where
  "recipient_server refused log attempt =
     (if msg_to (mail attempt) = refused then SMTPFailure ''Recipient address rejected''
      else Delivered)"

definition demo_env_with ::
  "(smtp_attempt list \<Rightarrow> smtp_attempt \<Rightarrow> smtp_result) \<Rightarrow> string option \<Rightarrow> env" where
  "demo_env_with server password =
     (demo_env (Some ''me@gmail.com'') password 200 demo_csv Delivered)
       \<lparr>smtp_server := server\<rparr>"

text \<open>
  A row whose cells are padded with a no-break space, an ideographic space, spaces and
  a tab, and that has a cell of a no-break space alone.
\<close>

definition demo_padded_row :: "cell list" where
  "demo_padded_row =
     [Cell ([CHR 0xC2, CHR 0xA0] @ ''Acme''), NaN, Cell '' a@b.com '',
      Cell [CHR 0xC2, CHR 0xA0],
      Cell ([CHR 0xE3, CHR 0x80, CHR 0x80] @ ''Jane Doe'' @ [CHR 0x09])]"

definition demo_request :: google_sheet_request where
  "demo_request = \<lparr>sheet_url = ''ABC123'', sheet_subject = None, sheet_body = None\<rparr>"

definition demo_contacts :: "contact list" where
  "demo_contacts =
     [\<lparr>email = ''a@b.com'', hr_name = ''Jane Doe'', company_name = ''Acme''\<rparr>,
      \<lparr>email = ''hr@initech.com'', hr_name = ''Hiring Manager'', company_name = ''Initech''\<rparr>]"

definition demo_single_request :: single_email_request where
  "demo_single_request =
     \<lparr>req_to_email = ''a@b.com'', req_hr_name = ''Jane Doe'', req_company_name = ''Acme'',
      req_subject = None, req_body = None, req_sender_email = None,
      req_sender_password = None\<rparr>"

definition world0 :: world where
  "world0 = \<lparr>http_log = [], smtp_log = [], stdout = []\<rparr>"


section \<open>Facts about the string primitives\<close>

lemma str_find_Some: "str_find sep s = Some (a, b) \<Longrightarrow> s = a @ sep @ b"
  by (induction s arbitrary: a b) (auto simp: prefix_def split: if_splits option.splits)

lemma py_in_char: "py_in [c] s \<longleftrightarrow> c \<in> set s"
  unfolding py_in_def by (induction s) (auto split: option.splits)


section \<open>The contact extractor\<close>

lemma find_email_find: "find_email vs = List.find (\<lambda>v. CHR ''@'' \<in> set v) vs"
  by (induction vs) (simp_all add: py_in_char)

lemma find_email_nonempty: "find_email vs = Some e \<Longrightarrow> e \<noteq> []"
  by (auto simp: find_email_find find_Some_iff)

lemma row_step_emit:
  assumes "length (row_values row) \<ge> 2" and "find_email (row_values row) = Some e"
  shows "row_step row contacts = contacts @
           [\<lparr>email = e,
             hr_name = (if last (row_values row) = e then ''Hiring Manager''
                        else last (row_values row)),
             company_name = hd (row_values row)\<rparr>]"
proof -
  have ne: "e \<noteq> []" using assms(2) by (rule find_email_nonempty)
  obtain v vs where vs: "row_values row = v # vs"
    using assms(1) by (cases "row_values row") auto
  show ?thesis using assms ne
    by (auto simp: row_step_def Let_def vs)
qed

lemma row_step_skip_short: "length (row_values row) < 2 \<Longrightarrow> row_step row contacts = contacts"
  by (simp add: row_step_def Let_def)

lemma row_step_skip_no_email:
  "find_email (row_values row) = None \<Longrightarrow> row_step row contacts = contacts"
  by (simp add: row_step_def Let_def)

lemma row_step_append: "row_step row contacts = contacts @ row_step row []"
  by (simp add: row_step_def Let_def split: option.splits)

lemma rows_loop_concat:
  "rows_loop rows contacts = contacts @ concat (map (\<lambda>row. row_step row []) rows)"
proof (induction rows arbitrary: contacts)
  case Nil
  show ?case by simp
next
  case (Cons row rows)
  have "rows_loop (row # rows) contacts = rows_loop rows (row_step row contacts)" by simp
  also have "\<dots> = row_step row contacts @ concat (map (\<lambda>row. row_step row []) rows)"
    by (rule Cons.IH)
  also have "\<dots> = contacts @ row_step row [] @ concat (map (\<lambda>row. row_step row []) rows)"
    using row_step_append[of row contacts] by simp
  finally show ?case by simp
qed

lemma rows_loop_split:
  "rows_loop (before @ row # after) [] =
     rows_loop before [] @ row_step row [] @ rows_loop after []"
  by (simp add: rows_loop_concat)

lemma parse_contacts_rows:
  "read_csv env csv_data = Inr df \<Longrightarrow> parse_contacts env csv_data = Inr (rows_loop df [])"
  by (simp add: parse_contacts_def and_then_def)

text \<open>
  Claim C1, as amended. The rows are those of the frame that pandas reads from the CSV
  text, and the present values of a row are the non-empty, whitespace-trimmed \<open>str\<close>
  values of its cells that are not missing. A row whose present values are at least two
  and include one that contains \<open>@\<close> makes the extractor emit exactly one contact: the
  row appends one contact to the contacts collected so far, and in the result of
  \<open>parse_contacts\<close> that contact stands between the contacts of the rows before and
  those of the rows after. Its organization is the first present value and its email is
  the first present value that contains \<open>@\<close>.
\<close>

theorem row_emits_one_contact:
  assumes "length (row_values row) \<ge> 2"
    and "\<exists>v \<in> set (row_values row). CHR ''@'' \<in> set v"
  shows "\<exists>e name. List.find (\<lambda>v. CHR ''@'' \<in> set v) (row_values row) = Some e
           \<and> row_step row contacts =
               contacts @ [\<lparr>email = e, hr_name = name, company_name = hd (row_values row)\<rparr>]
           \<and> rows_loop (before @ row # after) [] =
               rows_loop before []
                 @ [\<lparr>email = e, hr_name = name, company_name = hd (row_values row)\<rparr>]
                 @ rows_loop after []
           \<and> (read_csv env csv_data = Inr (before @ row # after) \<longrightarrow>
                parse_contacts env csv_data =
                  Inr (rows_loop before []
                        @ [\<lparr>email = e, hr_name = name, company_name = hd (row_values row)\<rparr>]
                        @ rows_loop after []))"
proof -
  from assms(2) obtain e where e: "find_email (row_values row) = Some e"
    by (cases "find_email (row_values row)") (auto simp: find_email_find find_None_iff)
  let ?name = "if last (row_values row) = e then ''Hiring Manager'' else last (row_values row)"
  let ?c = "\<lparr>email = e, hr_name = ?name, company_name = hd (row_values row)\<rparr>"
  have step: "\<And>cs. row_step row cs = cs @ [?c]"
    using row_step_emit[OF assms(1) e] by simp
  have loop: "rows_loop (before @ row # after) [] = rows_loop before [] @ [?c] @ rows_loop after []"
    using step[of "[]"] by (simp add: rows_loop_split)
  have parse: "read_csv env csv_data = Inr (before @ row # after) \<longrightarrow>
                parse_contacts env csv_data =
                  Inr (rows_loop before [] @ [?c] @ rows_loop after [])"
    using loop by (auto dest: parse_contacts_rows)
  from e step[of contacts] loop parse show ?thesis
    unfolding find_email_find by blast
qed

lemma demo_padded_row_values:
  "row_values demo_padded_row = [''Acme'', ''a@b.com'', ''Jane Doe'']"
  by code_simp

lemma demo_first_row_values:
  "row_values [Cell ''Acme'', Cell ''a@b.com'', Cell ''Jane Doe'']
     = [''Acme'', ''a@b.com'', ''Jane Doe'']"
  by code_simp

lemma demo_read:
  "read_csv (demo_env a p code body_text smtp) demo_csv
     = Inr ([] @ [Cell ''Acme'', Cell ''a@b.com'', Cell ''Jane Doe'']
              # [[Cell ''Initech'', NaN, Cell ''hr@initech.com'']])"
  by (simp add: demo_env_def demo_read_csv_def)

text \<open>
  Witness of C1: a sparse row whose cells are padded with spaces, a tab, a no-break
  space and an ideographic space; and the first row of the demo sheet, through
  \<open>parse_contacts\<close>.
\<close>

theorem row_emits_one_contact_witness:
  "length (row_values demo_padded_row) \<ge> 2
   \<and> (\<exists>v \<in> set (row_values demo_padded_row). CHR ''@'' \<in> set v)
   \<and> (\<exists>name. row_step demo_padded_row []
         = [\<lparr>email = ''a@b.com'', hr_name = name, company_name = ''Acme''\<rparr>])
   \<and> (\<exists>name. parse_contacts (demo_env None None 200 demo_csv Delivered) demo_csv
         = Inr ([\<lparr>email = ''a@b.com'', hr_name = name, company_name = ''Acme''\<rparr>]
                  @ rows_loop [[Cell ''Initech'', NaN, Cell ''hr@initech.com'']] []))"
proof -
  let ?row = "[Cell ''Acme'', Cell ''a@b.com'', Cell ''Jane Doe'']"
  let ?env = "demo_env None None 200 demo_csv Delivered"
  have h1: "length (row_values demo_padded_row) \<ge> 2"
    by (simp add: demo_padded_row_values)
  have h2: "\<exists>v \<in> set (row_values demo_padded_row). CHR ''@'' \<in> set v"
    by (simp add: demo_padded_row_values)
  have k1: "length (row_values ?row) \<ge> 2" by (simp add: demo_first_row_values)
  have k2: "\<exists>v \<in> set (row_values ?row). CHR ''@'' \<in> set v"
    by (simp add: demo_first_row_values)
  from row_emits_one_contact[OF h1 h2, of "[]" "[]" "[]"]
  have a: "\<exists>name. row_step demo_padded_row []
         = [\<lparr>email = ''a@b.com'', hr_name = name, company_name = ''Acme''\<rparr>]"
    by (auto simp: demo_padded_row_values)
  from row_emits_one_contact[OF k1 k2,
      where before = "[]" and after = "[[Cell ''Initech'', NaN, Cell ''hr@initech.com'']]"
        and env = ?env and csv_data = demo_csv]
  have b: "\<exists>name. parse_contacts ?env demo_csv
         = Inr ([\<lparr>email = ''a@b.com'', hr_name = name, company_name = ''Acme''\<rparr>]
                  @ rows_loop [[Cell ''Initech'', NaN, Cell ''hr@initech.com'']] [])"
    using demo_read[of None None 200 demo_csv Delivered]
    by (auto simp: demo_first_row_values)
  from h1 h2 a b show ?thesis by blast
qed

lemma demo_parse_na_first:
  "parse_contacts (demo_env a p code body_text smtp) demo_csv_na_first
     = Inr [\<lparr>email = ''a@b.com'', hr_name = ''Jane Doe'', company_name = ''a@b.com''\<rparr>]"
proof -
  have v: "row_values [NaN, Cell ''a@b.com'', Cell ''Jane Doe''] = [''a@b.com'', ''Jane Doe'']"
    by code_simp
  have "read_csv (demo_env a p code body_text smtp) demo_csv_na_first
          = Inr [[NaN, Cell ''a@b.com'', Cell ''Jane Doe'']]"
    by (simp add: demo_env_def demo_read_csv_def demo_csv_na_first_def demo_csv_def
        demo_csv_no_contact_def)
  then show ?thesis
    by (simp add: parse_contacts_rows row_step_def v py_in_def)
qed

text \<open>
  Counterexample to C1 as stated: the CSV row \<open>NA,a@b.com,Jane Doe\<close> has the three
  non-empty trimmed cell values \<open>NA\<close>, \<open>a@b.com\<close> and \<open>Jane Doe\<close>, the first being
  \<open>NA\<close>; pandas reads the first cell as a missing value, and the organization of the
  contact the extractor emits is \<open>a@b.com\<close>.
\<close>

theorem na_organization_counterexample:
  "spec_present_values ''NA,a@b.com,Jane Doe'' = [''NA'', ''a@b.com'', ''Jane Doe'']
   \<and> parse_contacts (demo_env None None 200 demo_csv_na_first Delivered)
         (''NA,a@b.com,Jane Doe'' @ ''\<newline>'')
       = Inr [\<lparr>email = ''a@b.com'', hr_name = ''Jane Doe'', company_name = ''a@b.com''\<rparr>]"
proof -
  have a: "spec_present_values ''NA,a@b.com,Jane Doe'' = [''NA'', ''a@b.com'', ''Jane Doe'']"
    by code_simp
  have "''NA,a@b.com,Jane Doe'' @ ''\<newline>'' = demo_csv_na_first"
    by (simp add: demo_csv_na_first_def)
  with demo_parse_na_first[of None None 200 demo_csv_na_first Delivered] a
  show ?thesis by simp
qed

text \<open>
  Claim C2, as amended. The rows and their present values are those of the frame that
  pandas reads, as for C1. When a row makes the extractor emit a contact, the contact's
  display name (\<open>hr_name\<close>) is the last present value of the row, unless that value is
  identical to the chosen email: then it is the literal \<open>Hiring Manager\<close>; and the
  contact is the row's contribution to the result of \<open>parse_contacts\<close>. The row with the
  two cells \<open>Acme\<close> and \<open>a@b.com\<close> gives \<open>Hiring Manager\<close> (the witness below).
\<close>

theorem display_name_rule:
  assumes "row_step row contacts = contacts @ [c]"
  shows "hr_name c = (if last (row_values row) = email c then ''Hiring Manager''
                      else last (row_values row))
         \<and> (read_csv env csv_data = Inr (before @ row # after) \<longrightarrow>
              parse_contacts env csv_data =
                Inr (rows_loop before [] @ [c] @ rows_loop after []))"
proof -
  have name: "hr_name c = (if last (row_values row) = email c then ''Hiring Manager''
                      else last (row_values row))"
  proof (cases "length (row_values row) \<ge> 2")
    case False
    then have "row_step row contacts = contacts" by (simp add: row_step_skip_short)
    with assms show ?thesis by simp
  next
    case True
    show ?thesis
    proof (cases "find_email (row_values row)")
      case None
      then have "row_step row contacts = contacts" by (rule row_step_skip_no_email)
      with assms show ?thesis by simp
    next
      case (Some e)
      from row_step_emit[OF True Some, of contacts] assms show ?thesis by auto
    qed
  qed
  from assms row_step_append[of row contacts] have one: "row_step row [] = [c]" by simp
  have "read_csv env csv_data = Inr (before @ row # after) \<longrightarrow>
              parse_contacts env csv_data =
                Inr (rows_loop before [] @ [c] @ rows_loop after [])"
    using one by (auto dest: parse_contacts_rows simp: rows_loop_split)
  with name show ?thesis by (rule conjI)
qed

text \<open>Witness of C2: the row of the claim, and a row whose last cell is a name.\<close>

theorem display_name_rule_witness:
  "row_step [Cell ''Acme'', Cell ''a@b.com''] []
     = [] @ [\<lparr>email = ''a@b.com'', hr_name = ''Hiring Manager'', company_name = ''Acme''\<rparr>]
   \<and> hr_name (last (row_step [Cell ''Acme'', Cell ''a@b.com''] [])) = ''Hiring Manager''
   \<and> hr_name (last (row_step [Cell ''Acme'', Cell ''a@b.com'', Cell ''Jane Doe''] []))
       = ''Jane Doe''"
proof -
  have v1: "row_values [Cell ''Acme'', Cell ''a@b.com''] = [''Acme'', ''a@b.com'']"
    by code_simp
  note v2 = demo_first_row_values
  have e1: "row_step [Cell ''Acme'', Cell ''a@b.com''] []
        = [] @ [\<lparr>email = ''a@b.com'', hr_name = ''Hiring Manager'', company_name = ''Acme''\<rparr>]"
    by (simp add: row_step_def v1 py_in_def)
  have e2: "row_step [Cell ''Acme'', Cell ''a@b.com'', Cell ''Jane Doe''] []
        = [] @ [\<lparr>email = ''a@b.com'', hr_name = ''Jane Doe'', company_name = ''Acme''\<rparr>]"
    by (simp add: row_step_def v2 py_in_def)
  from display_name_rule[OF e1, THEN conjunct1] display_name_rule[OF e2, THEN conjunct1] e1 e2
  show ?thesis by (simp add: v1 v2)
qed

lemma demo_parse_na_last:
  "parse_contacts (demo_env a p code body_text smtp) demo_csv_na_last
     = Inr [\<lparr>email = ''a@b.com'', hr_name = ''Hiring Manager'', company_name = ''Acme''\<rparr>]"
proof -
  have v: "row_values [Cell ''Acme'', Cell ''a@b.com'', NaN] = [''Acme'', ''a@b.com'']"
    by code_simp
  have "read_csv (demo_env a p code body_text smtp) demo_csv_na_last
          = Inr [[Cell ''Acme'', Cell ''a@b.com'', NaN]]"
    by (simp add: demo_env_def demo_read_csv_def demo_csv_na_last_def demo_csv_na_first_def
        demo_csv_def demo_csv_no_contact_def)
  then show ?thesis
    by (simp add: parse_contacts_rows row_step_def v py_in_def)
qed

text \<open>
  Counterexample to C2 as stated: the CSV row \<open>Acme,a@b.com,NA\<close> has the last non-empty
  trimmed cell value \<open>NA\<close>, which is not the email; pandas reads that cell as a missing
  value, and the display name of the contact the extractor emits is \<open>Hiring Manager\<close>.
\<close>

theorem na_display_name_counterexample:
  "spec_present_values ''Acme,a@b.com,NA'' = [''Acme'', ''a@b.com'', ''NA'']
   \<and> parse_contacts (demo_env None None 200 demo_csv_na_last Delivered)
         (''Acme,a@b.com,NA'' @ ''\<newline>'')
       = Inr [\<lparr>email = ''a@b.com'', hr_name = ''Hiring Manager'', company_name = ''Acme''\<rparr>]"
proof -
  have a: "spec_present_values ''Acme,a@b.com,NA'' = [''Acme'', ''a@b.com'', ''NA'']"
    by code_simp
  have "''Acme,a@b.com,NA'' @ ''\<newline>'' = demo_csv_na_last"
    by (simp add: demo_csv_na_last_def)
  with demo_parse_na_last[of None None 200 demo_csv_na_last Delivered] a
  show ?thesis by simp
qed

text \<open>
  Claim C3. A row with fewer than two present values, or with at least two present values
  none of which contains \<open>@\<close>, makes the extractor emit no contact: the row leaves the
  contacts collected so far unchanged, and contributes nothing to the result of
  \<open>parse_contacts\<close>. The rows are those of the frame pandas reads; as pandas only drops
  cell values or rewrites numbers, a CSV row with fewer than two non-empty cells, or
  with none that contains \<open>@\<close>, is read as such a row.
\<close>

theorem row_emits_nothing:
  assumes "length (row_values row) < 2
           \<or> (length (row_values row) \<ge> 2 \<and> (\<forall>v \<in> set (row_values row). CHR ''@'' \<notin> set v))"
  shows "row_step row contacts = contacts
         \<and> rows_loop (before @ row # after) [] = rows_loop before [] @ rows_loop after []
         \<and> (read_csv env csv_data = Inr (before @ row # after) \<longrightarrow>
              parse_contacts env csv_data = Inr (rows_loop before [] @ rows_loop after []))"
proof -
  have skip: "\<And>cs. row_step row cs = cs"
  proof -
    fix cs
    from assms show "row_step row cs = cs"
    proof
      assume "length (row_values row) < 2"
      then show ?thesis by (rule row_step_skip_short)
    next
      assume "length (row_values row) \<ge> 2 \<and> (\<forall>v \<in> set (row_values row). CHR ''@'' \<notin> set v)"
      then have "find_email (row_values row) = None"
        by (simp add: find_email_find find_None_iff)
      then show ?thesis by (rule row_step_skip_no_email)
    qed
  qed
  have loop: "rows_loop (before @ row # after) [] = rows_loop before [] @ rows_loop after []"
    using skip[of "[]"] by (simp add: rows_loop_split)
  have "read_csv env csv_data = Inr (before @ row # after) \<longrightarrow>
              parse_contacts env csv_data = Inr (rows_loop before [] @ rows_loop after [])"
    using loop by (auto dest: parse_contacts_rows)
  with skip[of contacts] loop show ?thesis by blast
qed

text \<open>
  Witness of C3: a row whose only present value is an email (its other cells are
  missing, blank or a no-break space), and the row of the sheet without a contact, two
  values without \<open>@\<close>, through \<open>parse_contacts\<close>.
\<close>

theorem row_emits_nothing_witness:
  "length (row_values [NaN, Cell ''  a@b.com '', Cell '' '', Cell [CHR 0xC2, CHR 0xA0]]) < 2
   \<and> row_step [NaN, Cell ''  a@b.com '', Cell '' '', Cell [CHR 0xC2, CHR 0xA0]] [] = []
   \<and> length (row_values [Cell ''Acme'', Cell ''Jane Doe'']) \<ge> 2
   \<and> \<not> (\<exists>v \<in> set (row_values [Cell ''Acme'', Cell ''Jane Doe'']). CHR ''@'' \<in> set v)
   \<and> parse_contacts (demo_env None None 200 demo_csv_no_contact Delivered) demo_csv_no_contact
       = Inr []"
proof -
  let ?one = "[NaN, Cell ''  a@b.com '', Cell '' '', Cell [CHR 0xC2, CHR 0xA0]]"
  let ?two = "[Cell ''Acme'', Cell ''Jane Doe'']"
  let ?env = "demo_env None None 200 demo_csv_no_contact Delivered"
  have v1: "row_values ?one = [''a@b.com'']" by code_simp
  have v2: "row_values ?two = [''Acme'', ''Jane Doe'']" by code_simp
  have h1: "length (row_values ?one) < 2
            \<or> (length (row_values ?one) \<ge> 2
               \<and> (\<forall>v \<in> set (row_values ?one). CHR ''@'' \<notin> set v))"
    by (simp add: v1)
  have h2: "length (row_values ?two) < 2
            \<or> (length (row_values ?two) \<ge> 2
               \<and> (\<forall>v \<in> set (row_values ?two). CHR ''@'' \<notin> set v))"
    by (simp add: v2)
  have read: "read_csv ?env demo_csv_no_contact = Inr ([] @ ?two # [])"
    by (simp add: demo_env_def demo_read_csv_def demo_csv_no_contact_def demo_csv_def)
  from row_emits_nothing[OF h1, of "[]" "[]" "[]"]
  have a: "row_step ?one [] = []" by simp
  from row_emits_nothing[OF h2, where before = "[]" and after = "[]" and env = ?env
      and csv_data = demo_csv_no_contact] read
  have b: "parse_contacts ?env demo_csv_no_contact = Inr []" by simp
  from a b show ?thesis by (simp add: v1 v2)
qed


section \<open>The source loader\<close>

lemma py_in_occurrence: "py_in sep (a @ sep @ b)"
  unfolding py_in_def
proof (induction a)
  case Nil
  have "prefix sep (sep @ b)" by simp
  then show ?case by (cases "sep @ b") simp_all
next
  case (Cons x a)
  then show ?case by (auto split: option.splits)
qed

lemma split_parts_None: "sep \<noteq> [] \<Longrightarrow> str_find sep s = None \<Longrightarrow> split_parts sep s = [s]"
  by (simp add: split_parts.simps)

lemma split_parts_Some:
  "sep \<noteq> [] \<Longrightarrow> str_find sep s = Some (a, b) \<Longrightarrow> split_parts sep s = a # split_parts sep b"
  by (simp add: split_parts.simps)

lemma split_parts_first:
  "sep \<noteq> [] \<Longrightarrow> py_index (split_parts sep s) 0 = Inr (before_next sep s)"
  by (cases "str_find sep s")
     (auto simp: py_index_def before_next_def split_parts_None split_parts_Some)

lemma split_parts_second:
  assumes "sep \<noteq> []" and "str_find sep s = Some (a, rest)"
  shows "py_index (split_parts sep s) 1 = Inr (before_next sep rest)"
proof -
  have "split_parts sep s = a # split_parts sep rest"
    using assms by (rule split_parts_Some)
  moreover have "split_parts sep rest \<noteq> [] \<and> split_parts sep rest ! 0 = before_next sep rest"
    using split_parts_first[OF assms(1), of rest] by (auto simp: py_index_def split: if_splits)
  ultimately show ?thesis by (cases "split_parts sep rest") (auto simp: py_index_def)
qed

lemma str_find_char:
  "str_find [c] s = (if c \<in> set s then Some (takeWhile (\<lambda>x. x \<noteq> c) s, tl (dropWhile (\<lambda>x. x \<noteq> c) s)) else None)"
  by (induction s) auto

lemma before_next_char: "before_next [c] s = takeWhile (\<lambda>x. x \<noteq> c) s"
proof (cases "c \<in> set s")
  case True
  then show ?thesis by (simp add: before_next_def str_find_char)
next
  case False
  then have tw: "takeWhile (\<lambda>x. x \<noteq> c) s = s" by (induction s) auto
  show ?thesis using False by (simp add: before_next_def str_find_char tw)
qed

lemma takeWhile_stop: "\<not> P x \<Longrightarrow> takeWhile P (a @ x # ys) = takeWhile P a"
  by (induction a) auto

lemma takeWhile_before_next:
  assumes "sep = x # xs" and "\<not> P x"
  shows "takeWhile P (before_next sep s) = takeWhile P s"
proof (cases "str_find sep s")
  case None
  then show ?thesis by (simp add: before_next_def)
next
  case (Some p)
  obtain a b where p: "p = (a, b)" by (cases p)
  have "s = a @ sep @ b" using Some p by (simp add: str_find_Some)
  then show ?thesis using assms Some p by (simp add: before_next_def takeWhile_stop)
qed

lemma takeWhile_twice: "takeWhile P (takeWhile Q s) = takeWhile (\<lambda>x. P x \<and> Q x) s"
  by (induction s) auto

lemma sheet_id_of_spec: "sheet_id_of ref = Inr (spec_document_id ref)"
proof (cases "str_find ''/d/'' ref")
  case None
  then show ?thesis by (simp add: sheet_id_of_def spec_document_id_def py_in_def)
next
  case (Some p)
  obtain a rest where p: "p = (a, rest)" by (cases p)
  have second: "py_index (split_parts ''/d/'' ref) 1 = Inr (before_next ''/d/'' rest)"
    using Some p by (intro split_parts_second) auto
  have "takeWhile (\<lambda>c. c \<noteq> CHR ''/'') (before_next ''/d/'' rest) = takeWhile (\<lambda>c. c \<noteq> CHR ''/'') rest"
    by (rule takeWhile_before_next) auto
  then show ?thesis using Some p second
    by (simp add: sheet_id_of_def spec_document_id_def py_in_def py_split_def and_then_def
        split_parts_first before_next_char)
qed

lemma gid_of_cut: "gid_of ref = Inr (tab_id_cut_at_gid ref)"
proof (cases "str_find ''gid='' ref")
  case None
  then show ?thesis by (simp add: gid_of_def tab_id_cut_at_gid_def py_in_def)
next
  case (Some p)
  obtain a rest where p: "p = (a, rest)" by (cases p)
  have second: "py_index (split_parts ''gid='' ref) 1 = Inr (before_next ''gid='' rest)"
    using Some p by (intro split_parts_second) auto
  show ?thesis using Some p second
    by (simp add: gid_of_def tab_id_cut_at_gid_def py_in_def py_split_def and_then_def
        split_parts_first before_next_char takeWhile_twice)
qed

lemma tab_id_agrees:
  assumes "\<not> py_in ''gid='' (spec_tab_id ref)"
  shows "tab_id_cut_at_gid ref = spec_tab_id ref"
proof (cases "str_find ''gid='' ref")
  case None
  then show ?thesis by (simp add: tab_id_cut_at_gid_def spec_tab_id_def)
next
  case (Some p)
  obtain a rest where p: "p = (a, rest)" by (cases p)
  let ?P = "\<lambda>c. c \<noteq> CHR ''&'' \<and> c \<noteq> CHR ''#''"
  have spec: "spec_tab_id ref = takeWhile ?P rest" using Some p by (simp add: spec_tab_id_def)
  have cut: "tab_id_cut_at_gid ref = takeWhile ?P (before_next ''gid='' rest)"
    using Some p by (simp add: tab_id_cut_at_gid_def)
  show ?thesis
  proof (cases "str_find ''gid='' rest")
    case None
    then show ?thesis using spec cut by (simp add: before_next_def)
  next
    case (Some q)
    obtain seg more where q: "q = (seg, more)" by (cases q)
    have rest: "rest = seg @ ''gid='' @ more" using Some q str_find_Some[of "''gid=''" rest seg more] by simp
    have bn: "before_next ''gid='' rest = seg" using Some q by (simp add: before_next_def)
    show ?thesis
    proof (cases "\<forall>c \<in> set seg. ?P c")
      case True
      then have "takeWhile ?P rest = seg @ ''gid='' @ takeWhile ?P more"
        unfolding rest by simp
      then have "py_in ''gid='' (spec_tab_id ref)"
        unfolding spec using py_in_occurrence[of "''gid=''" seg "takeWhile ?P more"] by simp
      with assms show ?thesis by simp
    next
      case False
      then obtain c where "c \<in> set seg" "\<not> ?P c" by blast
      then have "takeWhile ?P rest = takeWhile ?P seg"
        unfolding rest by (intro takeWhile_append1) auto
      then show ?thesis using spec cut bn by simp
    qed
  qed
qed

text \<open>
  Claim C4, as amended. No sheet reference makes the loader raise while it reads the
  two ids. The document id is the substring between the first \<open>/d/\<close> and the next
  \<open>/\<close> (the rest of the reference when no \<open>/\<close> follows), and the whole reference when
  \<open>/d/\<close> does not occur. The tab id is the substring after the first \<open>gid=\<close> up to
  the next \<open>&\<close>, \<open>#\<close> or further \<open>gid=\<close>, and \<open>0\<close> when \<open>gid=\<close> does not occur; it
  is the tab id of the specification whenever that one contains no \<open>gid=\<close>.
\<close>

theorem sheet_reference_ids:
  "sheet_id_of ref = Inr (spec_document_id ref)
   \<and> gid_of ref = Inr (tab_id_cut_at_gid ref)
   \<and> (\<not> py_in ''gid='' (spec_tab_id ref) \<longrightarrow> gid_of ref = Inr (spec_tab_id ref))"
  using sheet_id_of_spec[of ref] gid_of_cut[of ref] tab_id_agrees[of ref] by simp

text \<open>
  Witness of C4: the reference of the specification gives the document id \<open>ABC123\<close>
  and the tab id \<open>456\<close>, a bare identifier gives itself and the tab id \<open>0\<close>.
\<close>

theorem sheet_reference_ids_witness:
  "sheet_id_of ''https://docs.google.com/spreadsheets/d/ABC123/edit?gid=456#gid=456'' = Inr ''ABC123''
   \<and> gid_of ''https://docs.google.com/spreadsheets/d/ABC123/edit?gid=456#gid=456'' = Inr ''456''
   \<and> \<not> py_in ''gid='' (spec_tab_id ''https://docs.google.com/spreadsheets/d/ABC123/edit?gid=456#gid=456'')
   \<and> sheet_id_of ''ABC123'' = Inr ''ABC123''
   \<and> gid_of ''ABC123'' = Inr ''0''"
proof -
  let ?url = "''https://docs.google.com/spreadsheets/d/ABC123/edit?gid=456#gid=456''"
  have d: "spec_document_id ?url = ''ABC123''" by (simp add: spec_document_id_def)
  have t: "spec_tab_id ?url = ''456''" by (simp add: spec_tab_id_def)
  have n: "\<not> py_in ''gid='' ''456''" by (simp add: py_in_def)
  have d': "spec_document_id ''ABC123'' = ''ABC123''" by (simp add: spec_document_id_def)
  have t': "spec_tab_id ''ABC123'' = ''0''" by (simp add: spec_tab_id_def)
  have n': "\<not> py_in ''gid='' ''0''" by (simp add: py_in_def)
  from sheet_reference_ids[of ?url]
  have a: "sheet_id_of ?url = Inr ''ABC123''" and b: "gid_of ?url = Inr ''456''"
    unfolding d t using n by blast+
  from sheet_reference_ids[of "''ABC123''"]
  have a': "sheet_id_of ''ABC123'' = Inr ''ABC123''" and b': "gid_of ''ABC123'' = Inr ''0''"
    unfolding d' t' using n' by blast+
  from a b a' b' n show ?thesis unfolding t by blast
qed

text \<open>
  Counterexample to C4 as stated: after the first \<open>gid=\<close> the reference goes on with
  \<open>12gid=34\<close>, without \<open>&\<close> or \<open>#\<close>; the loader takes the tab id \<open>12\<close>.
\<close>

theorem tab_id_counterexample:
  "gid_of ''https://docs.google.com/spreadsheets/d/ABC123/edit?gid=12gid=34'' = Inr ''12''
   \<and> spec_tab_id ''https://docs.google.com/spreadsheets/d/ABC123/edit?gid=12gid=34'' = ''12gid=34''"
  by (simp add: gid_of_cut tab_id_cut_at_gid_def before_next_def spec_tab_id_def)

lemma fetch_google_sheet_response:
  assumes "requests_get env (http_log w)
             (export_url_of (spec_document_id ref) (tab_id_cut_at_gid ref)) = Inr response"
  shows "fetch_google_sheet env w ref =
           (if status_code response = 200 then Inr (resp_text response)
            else Inl (HTTPException 400 ''Failed to fetch Google Sheet''),
            w\<lparr>http_log := http_log w
                 @ [export_url_of (spec_document_id ref) (tab_id_cut_at_gid ref)]\<rparr>)"
  using assms by (simp add: fetch_google_sheet_def sheet_id_of_spec gid_of_cut Let_def)

lemma fetch_google_sheet_cli_response:
  assumes "requests_get env (http_log w)
             (export_url_of (spec_document_id ref) (tab_id_cut_at_gid ref)) = Inr response"
  shows "fetch_google_sheet_cli env w ref =
           (if status_code response = 200 then Inr (resp_text response)
            else Inl (Exception (''Failed to fetch Google Sheet. Status code: ''
                        @ str_int (status_code response))),
            w\<lparr>stdout := stdout w @ [''Fetching data from Google Sheet...''],
              http_log := http_log w
                 @ [export_url_of (spec_document_id ref) (tab_id_cut_at_gid ref)]\<rparr>)"
  using assms by (simp add: fetch_google_sheet_cli_def sheet_id_of_spec gid_of_cut Let_def)

text \<open>
  Claim C7, as amended. When the GET is answered with a response, both loaders return
  the response body if the status is 200. On any other status the loader of the batch
  tool raises an exception whose message ends with the status code, and the loader of
  the Service API raises an \<open>HTTPException\<close> with status 400 and a fixed detail. Either
  way the loader has requested exactly one URL: nothing is retried, and the error is
  the loader's result.
\<close>

theorem fetch_status_handling:
  assumes "requests_get env (http_log w)
             (export_url_of (spec_document_id ref) (tab_id_cut_at_gid ref)) = Inr response"
  shows "fst (fetch_google_sheet_cli env w ref) =
           (if status_code response = 200 then Inr (resp_text response)
            else Inl (Exception (''Failed to fetch Google Sheet. Status code: ''
                        @ str_int (status_code response))))
         \<and> fst (fetch_google_sheet env w ref) =
           (if status_code response = 200 then Inr (resp_text response)
            else Inl (HTTPException 400 ''Failed to fetch Google Sheet''))
         \<and> http_log (snd (fetch_google_sheet_cli env w ref)) =
             http_log w @ [export_url_of (spec_document_id ref) (tab_id_cut_at_gid ref)]
         \<and> http_log (snd (fetch_google_sheet env w ref)) =
             http_log w @ [export_url_of (spec_document_id ref) (tab_id_cut_at_gid ref)]"
  using fetch_google_sheet_response[OF assms] fetch_google_sheet_cli_response[OF assms]
  by simp

lemma str_int_404: "str_int 404 = ''404''"
  by (simp add: str_int_def digits.simps)

lemma demo_export_url:
  "export_url_of (spec_document_id ''ABC123'') (tab_id_cut_at_gid ''ABC123'')
     = ''https://docs.google.com/spreadsheets/d/ABC123/export?format=csv&gid=0''"
  by (simp add: export_url_of_def spec_document_id_def tab_id_cut_at_gid_def)

text \<open>Witness of C7: a sheet that answers 404, and one that answers 200.\<close>

theorem fetch_status_handling_witness:
  "fst (fetch_google_sheet_cli (demo_env None None 404 ''Not Found'' Delivered) world0 ''ABC123'')
     = Inl (Exception ''Failed to fetch Google Sheet. Status code: 404'')
   \<and> fst (fetch_google_sheet (demo_env None None 404 ''Not Found'' Delivered) world0 ''ABC123'')
     = Inl (HTTPException 400 ''Failed to fetch Google Sheet'')
   \<and> http_log (snd (fetch_google_sheet (demo_env None None 404 ''Not Found'' Delivered) world0 ''ABC123''))
     = [''https://docs.google.com/spreadsheets/d/ABC123/export?format=csv&gid=0'']
   \<and> fst (fetch_google_sheet (demo_env None None 200 demo_csv Delivered) world0 ''ABC123'')
     = Inr demo_csv"
proof -
  have r1: "requests_get (demo_env None None 404 ''Not Found'' Delivered) (http_log world0)
              (export_url_of (spec_document_id ''ABC123'') (tab_id_cut_at_gid ''ABC123''))
            = Inr \<lparr>status_code = 404, resp_text = ''Not Found''\<rparr>"
    by (simp add: demo_env_def)
  have r2: "requests_get (demo_env None None 200 demo_csv Delivered) (http_log world0)
              (export_url_of (spec_document_id ''ABC123'') (tab_id_cut_at_gid ''ABC123''))
            = Inr \<lparr>status_code = 200, resp_text = demo_csv\<rparr>"
    by (simp add: demo_env_def)
  from fetch_status_handling[OF r1] fetch_status_handling[OF r2] show ?thesis
    by (simp add: str_int_404 demo_export_url world0_def)
qed

text \<open>
  Counterexample to C7 as stated: the error of the Service API's loader is the same for
  the statuses 404 and 503, so it does not carry the status code of the response; and
  a response with the success status 201 makes both loaders raise.
\<close>

theorem fetch_status_counterexample:
  "fst (fetch_google_sheet (demo_env None None 404 ''Not Found'' Delivered) world0 ''ABC123'')
     = Inl (HTTPException 400 ''Failed to fetch Google Sheet'')
   \<and> fst (fetch_google_sheet (demo_env None None 503 ''Unavailable'' Delivered) world0 ''ABC123'')
     = Inl (HTTPException 400 ''Failed to fetch Google Sheet'')
   \<and> fst (fetch_google_sheet (demo_env None None 201 demo_csv Delivered) world0 ''ABC123'')
     = Inl (HTTPException 400 ''Failed to fetch Google Sheet'')
   \<and> fst (fetch_google_sheet_cli (demo_env None None 201 demo_csv Delivered) world0 ''ABC123'')
     = Inl (Exception ''Failed to fetch Google Sheet. Status code: 201'')"
  by (simp add: fetch_google_sheet_response fetch_google_sheet_cli_response demo_env_def
      str_int_def digits.simps)

section \<open>The dispatcher\<close>

lemma send_email_session:
  assumes "truthy (py_or sender_email (GMAIL_ADDRESS env))"
    and "truthy (py_or sender_password (GMAIL_APP_PASSWORD env))"
  shows "send_email env w to_email subject body sender_email sender_password =
           (case smtp_server env (smtp_log w)
                   \<lparr>login_user = py_or sender_email (GMAIL_ADDRESS env),
                    login_password = py_or sender_password (GMAIL_APP_PASSWORD env),
                    mail = \<lparr>msg_from = py_or sender_email (GMAIL_ADDRESS env),
                             msg_to = to_email, msg_subject = subject, msg_body = body\<rparr>\<rparr> of
              Delivered \<Rightarrow> Inr True
            | SMTPAuthenticationError m \<Rightarrow>
                Inl (HTTPException 401
                   ''Gmail authentication failed. Check your email and app password.'')
            | SMTPFailure e \<Rightarrow> Inl (HTTPException 500 (''Failed to send email: '' @ e)),
            w\<lparr>smtp_log := smtp_log w @
                 [\<lparr>login_user = py_or sender_email (GMAIL_ADDRESS env),
                   login_password = py_or sender_password (GMAIL_APP_PASSWORD env),
                   mail = \<lparr>msg_from = py_or sender_email (GMAIL_ADDRESS env),
                            msg_to = to_email, msg_subject = subject, msg_body = body\<rparr>\<rparr>]\<rparr>)"
  using assms by (simp add: send_email_def Let_def split: smtp_result.splits)

lemma not_isl_Inr: "\<not> isl x \<Longrightarrow> \<exists>y. x = Inr y"
  by (cases x) auto

lemma send_step_ok:
  assumes "renders_ok env request c"
  shows "\<exists>out w'. send_step env request w c results = (Inr (results @ [out]), w')
           \<and> outcome_email out = email c"
proof -
  from assms obtain subject body where
    s: "str_format env (or_default (sheet_subject request) DEFAULT_SUBJECT)
          [(''company_name'', Some (company_name c)), (''hr_name'', Some (hr_name c))] = Inr subject"
    and b: "str_format env (or_default (sheet_body request) DEFAULT_BODY)
          [(''company_name'', Some (company_name c)), (''hr_name'', Some (hr_name c)),
           (''sender_email'', GMAIL_ADDRESS env)] = Inr body"
    unfolding renders_ok_def by (blast dest: not_isl_Inr)
  obtain r w' where r: "send_email env w (email c) subject body None None = (r, w')"
    by (cases "send_email env w (email c) subject body None None")
  show ?thesis
    by (cases r) (simp_all add: send_step_def s b r)
qed


lemma send_loop_ok:
  assumes "\<forall>c \<in> set contacts. renders_ok env request c"
  shows "\<exists>outs w'. send_loop env request w contacts results = (Inr (results @ outs), w')
           \<and> map outcome_email outs = map email contacts"
  using assms
proof (induction contacts arbitrary: w results)
  case Nil
  show ?case by simp
next
  case (Cons c contacts)
  then have "renders_ok env request c" by simp
  from send_step_ok[OF this, of w results] obtain out w1 where
    step: "send_step env request w c results = (Inr (results @ [out]), w1)"
    and out: "outcome_email out = email c" by blast
  from Cons.prems have "\<forall>c \<in> set contacts. renders_ok env request c" by simp
  from Cons.IH[OF this, of w1 "results @ [out]"] obtain outs w' where
    loop: "send_loop env request w1 contacts (results @ [out]) = (Inr ((results @ [out]) @ outs), w')"
    and outs: "map outcome_email outs = map email contacts" by blast
  have "send_loop env request w (c # contacts) results = (Inr (results @ (out # outs)), w')"
    using step loop by simp
  moreover have "map outcome_email (out # outs) = map email (c # contacts)"
    using out outs by simp
  ultimately show ?case by blast
qed

lemma success_count: "sum_list (map (\<lambda>r. 1) xs) = int (length xs)"
  by (induction xs) auto

lemma summarize_fields:
  "summary_total (summarize contacts outs) = int (length contacts)"
  "summary_success (summarize contacts outs) = int (length (filter outcome_success outs))"
  "summary_failed (summarize contacts outs)
     = int (length contacts) - int (length (filter outcome_success outs))"
  "summary_results (summarize contacts outs) = outs"
  by (simp_all add: summarize_def Let_def success_count)

lemma summarize_all_failed:
  assumes "\<forall>out \<in> set outs. \<not> outcome_success out"
  shows "summarize contacts outs =
           \<lparr>summary_total = int (length contacts), summary_success = 0,
            summary_failed = int (length contacts), summary_results = outs\<rparr>"
proof -
  have "filter outcome_success outs = []" using assms by (simp add: filter_empty_conv)
  then show ?thesis by (simp add: summarize_def Let_def)
qed


lemma send_step_Inr:
  assumes "send_step env request w c results = (Inr results', w')"
  shows "\<exists>out. results' = results @ [out] \<and> outcome_email out = email c"
  using assms by (auto simp: send_step_def split: sum.splits prod.splits)

lemma send_loop_Inr:
  assumes "send_loop env request w contacts results = (Inr results', w')"
  shows "\<exists>outs. results' = results @ outs \<and> map outcome_email outs = map email contacts"
  using assms
proof (induction contacts arbitrary: w results)
  case Nil
  then show ?case by simp
next
  case (Cons c contacts)
  obtain r w1 where step: "send_step env request w c results = (r, w1)"
    by (cases "send_step env request w c results")
  show ?case
  proof (cases r)
    case (Inl e)
    with Cons.prems step show ?thesis by simp
  next
    case (Inr results1)
    from send_step_Inr[OF step[unfolded Inr]] obtain out where
      out: "results1 = results @ [out]" "outcome_email out = email c" by blast
    from Cons.prems step Inr have "send_loop env request w1 contacts results1 = (Inr results', w')"
      by simp
    from Cons.IH[OF this] obtain outs where
      "results' = results1 @ outs" "map outcome_email outs = map email contacts" by blast
    with out have "results' = results @ (out # outs)
                   \<and> map outcome_email (out # outs) = map email (c # contacts)" by simp
    then show ?thesis by blast
  qed
qed

lemma send_from_google_sheet_runs:
  assumes "truthy (GMAIL_ADDRESS env)" and "truthy (GMAIL_APP_PASSWORD env)"
    and "fetch_google_sheet env w (sheet_url request) = (Inr csv_data, w1)"
    and "parse_contacts env csv_data = Inr contacts" and "contacts \<noteq> []"
  shows "send_from_google_sheet env w request =
           (case send_loop env request w1 contacts [] of
              (Inl e, w2) \<Rightarrow> (Inl e, w2)
            | (Inr outs, w2) \<Rightarrow> (Inr (summarize contacts outs), w2))"
  using assms by (simp add: send_from_google_sheet_def)

lemma send_from_google_sheet_Inr:
  assumes "send_from_google_sheet env w request = (Inr s, w')"
  shows "\<exists>csv_data w1 contacts outs.
           fetch_google_sheet env w (sheet_url request) = (Inr csv_data, w1)
           \<and> parse_contacts env csv_data = Inr contacts
           \<and> contacts \<noteq> []
           \<and> send_loop env request w1 contacts [] = (Inr outs, w')
           \<and> s = summarize contacts outs"
  using assms
  by (auto simp: send_from_google_sheet_def split: if_splits prod.splits sum.splits)


lemma send_email_cli_Inr:
  assumes "send_email_cli env w to_email name company preview = (Inr r, w')"
  shows "(preview \<longrightarrow> r \<and> smtp_log w' = smtp_log w)
         \<and> (\<not> preview \<longrightarrow> (\<exists>a. smtp_log w' = smtp_log w @ [a] \<and> msg_to (mail a) = to_email
                                \<and> (r \<longleftrightarrow> smtp_server env (smtp_log w) a = Delivered)))"
  using assms
  by (cases preview)
     (auto simp: send_email_cli_def Let_def split: sum.splits smtp_result.splits)


lemma main_loop_unfold:
  assumes "main_loop env preview delay w i (c # contacts) s0 f0 = (Inr (s, f), w')"
  shows "\<exists>w1 r w2. smtp_log w1 = smtp_log w
           \<and> send_email_cli env w1 (email c) (hr_name c) (company_name c) preview = (Inr r, w2)
           \<and> main_loop env preview delay w2 (Suc i) contacts
                (if r then s0 + 1 else s0) (if r then f0 else f0 + 1) = (Inr (s, f), w')"
proof -
  let ?waiting = "i > 0 \<and> \<not> preview"
  let ?w1 = "if ?waiting
             then w\<lparr>stdout := stdout w @ [''Waiting '' @ str_int delay @ '' seconds...'']\<rparr>
             else w"
  have log: "smtp_log ?w1 = smtp_log w" by simp
  obtain r w2 where
    send: "send_email_cli env ?w1 (email c) (hr_name c) (company_name c) preview = (r, w2)"
    by (cases "send_email_cli env ?w1 (email c) (hr_name c) (company_name c) preview")
  have slept: "?waiting \<longrightarrow> time_sleep env delay = None"
    using assms
    by (cases "time_sleep env delay"; cases "i > 0"; cases preview) (auto simp: Let_def)
  have eq: "main_loop env preview delay w i (c # contacts) s0 f0 =
          (case (r, w2) of
              (Inl e, w2) \<Rightarrow> (Inl e, w2)
            | (Inr result, w2) \<Rightarrow>
                if result
                then main_loop env preview delay w2 (Suc i) contacts (s0 + 1) f0
                else main_loop env preview delay w2 (Suc i) contacts s0 (f0 + 1))"
    using slept send
    by (cases "i > 0 \<and> \<not> preview") (auto simp: Let_def split: sum.splits)
  show ?thesis
  proof (cases r)
    case (Inl e)
    with eq assms show ?thesis by simp
  next
    case (Inr result)
    with eq assms have
      "main_loop env preview delay w2 (Suc i) contacts
         (if result then s0 + 1 else s0) (if result then f0 else f0 + 1) = (Inr (s, f), w')"
      by (cases result) simp_all
    with log send Inr show ?thesis by blast
  qed
qed

lemma main_loop_Inr:
  assumes "main_loop env preview delay w i contacts s0 f0 = (Inr (s, f), w')"
  shows "s + f = s0 + f0 + int (length contacts) \<and> s0 \<le> s \<and> f0 \<le> f
         \<and> (preview \<longrightarrow> f = f0)
         \<and> (\<not> preview \<longrightarrow>
              (\<exists>atts. smtp_log w' = smtp_log w @ atts
                 \<and> map (\<lambda>a. msg_to (mail a)) atts = map email contacts))"
  using assms
proof (induction contacts arbitrary: w i s0 f0)
  case Nil
  then show ?case by simp
next
  case (Cons c contacts)
  from main_loop_unfold[OF Cons.prems] obtain w1 r w2 where
    log: "smtp_log w1 = smtp_log w"
    and send: "send_email_cli env w1 (email c) (hr_name c) (company_name c) preview = (Inr r, w2)"
    and rest: "main_loop env preview delay w2 (Suc i) contacts
                 (if r then s0 + 1 else s0) (if r then f0 else f0 + 1) = (Inr (s, f), w')"
    by blast
  note ih = Cons.IH[OF rest]
  note one = send_email_cli_Inr[OF send]
  have sums: "s + f = s0 + f0 + int (length (c # contacts)) \<and> s0 \<le> s \<and> f0 \<le> f"
    using ih by (cases r) auto
  have prev: "preview \<longrightarrow> f = f0"
    using ih one by auto
  have atts: "\<not> preview \<longrightarrow>
      (\<exists>atts. smtp_log w' = smtp_log w @ atts
         \<and> map (\<lambda>a. msg_to (mail a)) atts = map email (c # contacts))"
  proof
    assume np: "\<not> preview"
    with one obtain a where a: "smtp_log w2 = smtp_log w1 @ [a]" "msg_to (mail a) = email c"
      by blast
    from np ih obtain atts where
      "smtp_log w' = smtp_log w2 @ atts" "map (\<lambda>a. msg_to (mail a)) atts = map email contacts"
      by blast
    with a log have "smtp_log w' = smtp_log w @ (a # atts)
        \<and> map (\<lambda>a. msg_to (mail a)) (a # atts) = map email (c # contacts)" by simp
    then show "\<exists>atts. smtp_log w' = smtp_log w @ atts
         \<and> map (\<lambda>a. msg_to (mail a)) atts = map email (c # contacts)" by blast
  qed
  from sums prev atts show ?case by blast
qed




lemma main_dispatch_Inr:
  assumes "main_dispatch env preview delay w contacts = (Inr (s, f), w')"
  shows "\<exists>w1. main_loop env preview delay w 0 contacts 0 0 = (Inr (s, f), w1)"
  using assms by (auto simp: main_dispatch_def split: prod.splits sum.splits)


text \<open>
  The loop body of the batch send, with credentials configured and templates that
  render: it makes one session, to the contact, and appends one outcome, of the
  contact, which is a success exactly when the session was delivered.
\<close>

lemma send_step_session:
  assumes "truthy (GMAIL_ADDRESS env)" and "truthy (GMAIL_APP_PASSWORD env)"
    and "renders_ok env request c"
  shows "\<exists>a out. send_step env request w c results
                   = (Inr (results @ [out]), w\<lparr>smtp_log := smtp_log w @ [a]\<rparr>)
           \<and> msg_to (mail a) = email c \<and> outcome_email out = email c
           \<and> (outcome_success out \<longleftrightarrow> smtp_server env (smtp_log w) a = Delivered)"
proof -
  from assms(3) obtain subject body where
    s: "str_format env (or_default (sheet_subject request) DEFAULT_SUBJECT)
          [(''company_name'', Some (company_name c)), (''hr_name'', Some (hr_name c))] = Inr subject"
    and b: "str_format env (or_default (sheet_body request) DEFAULT_BODY)
          [(''company_name'', Some (company_name c)), (''hr_name'', Some (hr_name c)),
           (''sender_email'', GMAIL_ADDRESS env)] = Inr body"
    unfolding renders_ok_def by (blast dest: not_isl_Inr)
  have n: "py_or None (GMAIL_ADDRESS env) = GMAIL_ADDRESS env"
    "py_or None (GMAIL_APP_PASSWORD env) = GMAIL_APP_PASSWORD env"
    by (simp_all add: py_or_def truthy_def)
  have t: "truthy (py_or None (GMAIL_ADDRESS env))" "truthy (py_or None (GMAIL_APP_PASSWORD env))"
    using assms(1,2) by (simp_all add: n)
  let ?a = "\<lparr>login_user = GMAIL_ADDRESS env, login_password = GMAIL_APP_PASSWORD env,
             mail = \<lparr>msg_from = GMAIL_ADDRESS env, msg_to = email c,
                      msg_subject = subject, msg_body = body\<rparr>\<rparr>"
  note session = send_email_session[OF t, of w "email c" subject body, unfolded n]
  have "\<exists>out. send_step env request w c results
                   = (Inr (results @ [out]), w\<lparr>smtp_log := smtp_log w @ [?a]\<rparr>)
           \<and> msg_to (mail ?a) = email c \<and> outcome_email out = email c
           \<and> (outcome_success out \<longleftrightarrow> smtp_server env (smtp_log w) ?a = Delivered)"
    by (cases "smtp_server env (smtp_log w) ?a") (simp_all add: send_step_def s b session)
  then show ?thesis by blast
qed

lemma send_loop_answers:
  assumes "truthy (GMAIL_ADDRESS env)" and "truthy (GMAIL_APP_PASSWORD env)"
    and "\<forall>c \<in> set contacts. renders_ok env request c"
  shows "\<exists>outs atts w'. send_loop env request w contacts results = (Inr (results @ outs), w')
           \<and> smtp_log w' = smtp_log w @ atts
           \<and> map (\<lambda>a. msg_to (mail a)) atts = map email contacts
           \<and> map outcome_email outs = map email contacts
           \<and> map outcome_success outs
               = map (\<lambda>r. r = Delivered) (answers env (smtp_log w) atts)"
  using assms(3)
proof (induction contacts arbitrary: w results)
  case Nil
  have "send_loop env request w [] results = (Inr (results @ []), w)
      \<and> smtp_log w = smtp_log w @ [] \<and> map (\<lambda>a. msg_to (mail a)) [] = map email []
      \<and> map outcome_email [] = map email []
      \<and> map outcome_success [] = map (\<lambda>r. r = Delivered) (answers env (smtp_log w) [])"
    by simp
  then show ?case by blast
next
  case (Cons c contacts)
  then have "renders_ok env request c" by simp
  from send_step_session[OF assms(1,2) this, of w results] obtain a out where
    step: "send_step env request w c results
             = (Inr (results @ [out]), w\<lparr>smtp_log := smtp_log w @ [a]\<rparr>)"
    and a: "msg_to (mail a) = email c" and out: "outcome_email out = email c"
    and ok: "outcome_success out \<longleftrightarrow> smtp_server env (smtp_log w) a = Delivered" by blast
  let ?w1 = "w\<lparr>smtp_log := smtp_log w @ [a]\<rparr>"
  from Cons.prems have "\<forall>c \<in> set contacts. renders_ok env request c" by simp
  from Cons.IH[OF this, of ?w1 "results @ [out]"] obtain outs atts w' where
    loop: "send_loop env request ?w1 contacts (results @ [out])
             = (Inr ((results @ [out]) @ outs), w')"
    and l: "smtp_log w' = smtp_log ?w1 @ atts"
    and t: "map (\<lambda>a. msg_to (mail a)) atts = map email contacts"
    and e: "map outcome_email outs = map email contacts"
    and k: "map outcome_success outs
              = map (\<lambda>r. r = Delivered) (answers env (smtp_log ?w1) atts)" by blast
  have "send_loop env request w (c # contacts) results = (Inr (results @ (out # outs)), w')
      \<and> smtp_log w' = smtp_log w @ (a # atts)
      \<and> map (\<lambda>a. msg_to (mail a)) (a # atts) = map email (c # contacts)
      \<and> map outcome_email (out # outs) = map email (c # contacts)
      \<and> map outcome_success (out # outs)
          = map (\<lambda>r. r = Delivered) (answers env (smtp_log w) (a # atts))"
    using step loop l t e k a out ok by simp
  then show ?case by blast
qed

lemma no_delivery_no_success:
  assumes "map outcome_success outs = map (\<lambda>r. r = Delivered) rs"
    and "Delivered \<notin> set rs"
  shows "\<forall>out \<in> set outs. \<not> outcome_success out"
proof
  fix out assume "out \<in> set outs"
  then have "outcome_success out \<in> set (map outcome_success outs)" by simp
  then have "outcome_success out \<in> set (map (\<lambda>r. r = Delivered) rs)" by (simp only: assms(1))
  then obtain r where "r \<in> set rs" "outcome_success out = (r = Delivered)" by auto
  with assms(2) show "\<not> outcome_success out" by auto
qed


section \<open>The default templates under the plain format function\<close>

lemma default_subject_renders:
  "plain_format DEFAULT_SUBJECT [(''company_name'', Some c), (''hr_name'', Some h)]
     = Inr (''Application for SDE-1 Position at '' @ c)"
  by code_simp simp

lemma default_body_renders:
  "plain_format DEFAULT_BODY
     [(''company_name'', Some c), (''hr_name'', Some h), (''sender_email'', v)]
   = Inr (''Dear '' @ h @ '',\<newline>\<newline>''
     @ ''I hope this email finds you well. I am writing to express my interest in the Software Developer Engineer (SDE-1) position at '' @ c @ ''.\<newline>\<newline>''
     @ ''I am a passionate software developer with strong problem-solving skills and experience in:\<newline>''
     @ bullet @ '' Data Structures & Algorithms\<newline>''
     @ bullet @ '' Python, Java, JavaScript\<newline>''
     @ bullet @ '' Web Development (React, Node.js)\<newline>''
     @ bullet @ '' Database Management (SQL, MongoDB)\<newline>''
     @ bullet @ '' Git and Version Control\<newline>\<newline>''
     @ ''I am eager to contribute to '' @ c @ [CHR 0x27]
     @ ''s innovative projects and would be grateful for the opportunity to discuss how my skills align with your team''
     @ [CHR 0x27] @ ''s needs.\<newline>\<newline>''
     @ ''Thank you for your time and consideration.\<newline>\<newline>''
     @ ''Best regards,\<newline>[Your Name]\<newline>Email: '' @ py_str v @ ''\<newline>'')"
  by code_simp



lemma renders_ok_default:
  assumes "str_format env = plain_format"
    and "sheet_subject request = None" and "sheet_body request = None"
  shows "renders_ok env request c"
  using assms
  by (simp add: renders_ok_def or_default_def default_subject_renders default_body_renders)


section \<open>Runs of the demo environment\<close>

lemma demo_fields:
  "GMAIL_ADDRESS (demo_env a p code body_text smtp) = a"
  "GMAIL_APP_PASSWORD (demo_env a p code body_text smtp) = p"
  "smtp_server (demo_env a p code body_text smtp) log attempt = smtp"
  "str_format (demo_env a p code body_text smtp) = plain_format"
  "time_sleep (demo_env a p code body_text smtp) = demo_sleep"
  by (simp_all add: demo_env_def)

lemma demo_with_fields:
  "GMAIL_ADDRESS (demo_env_with server p) = Some ''me@gmail.com''"
  "GMAIL_APP_PASSWORD (demo_env_with server p) = p"
  "smtp_server (demo_env_with server p) = server"
  "str_format (demo_env_with server p) = plain_format"
  "read_csv (demo_env_with server p) = demo_read_csv"
  by (simp_all add: demo_env_with_def demo_env_def)

lemma demo_get:
  "requests_get (demo_env a p code body_text smtp) log url
     = Inr \<lparr>status_code = code, resp_text = body_text\<rparr>"
  by (simp add: demo_env_def)

lemma demo_with_get:
  "requests_get (demo_env_with server p) log url
     = Inr \<lparr>status_code = 200, resp_text = demo_csv\<rparr>"
  by (simp add: demo_env_with_def demo_env_def)

lemma demo_rows:
  "rows_loop [[Cell ''Acme'', Cell ''a@b.com'', Cell ''Jane Doe''],
              [Cell ''Initech'', NaN, Cell ''hr@initech.com'']] [] = demo_contacts"
proof -
  have v: "row_values [Cell ''Initech'', NaN, Cell ''hr@initech.com'']
             = [''Initech'', ''hr@initech.com'']"
    by code_simp
  show ?thesis
    by (simp add: row_step_def demo_first_row_values v py_in_def demo_contacts_def)
qed

lemma demo_parse:
  "parse_contacts (demo_env a p code body_text smtp) demo_csv = Inr demo_contacts"
proof -
  have "read_csv (demo_env a p code body_text smtp) demo_csv
          = Inr [[Cell ''Acme'', Cell ''a@b.com'', Cell ''Jane Doe''],
                 [Cell ''Initech'', NaN, Cell ''hr@initech.com'']]"
    by (simp add: demo_env_def demo_read_csv_def)
  from parse_contacts_rows[OF this] show ?thesis by (simp only: demo_rows)
qed

lemma demo_with_parse:
  "parse_contacts (demo_env_with server p) demo_csv = Inr demo_contacts"
proof -
  have "read_csv (demo_env_with server p) demo_csv
          = Inr [[Cell ''Acme'', Cell ''a@b.com'', Cell ''Jane Doe''],
                 [Cell ''Initech'', NaN, Cell ''hr@initech.com'']]"
    by (simp add: demo_with_fields demo_read_csv_def)
  from parse_contacts_rows[OF this] show ?thesis by (simp only: demo_rows)
qed

lemma demo_parse_no_contact:
  "parse_contacts (demo_env a p code body_text smtp) demo_csv_no_contact = Inr []"
proof -
  have v: "row_values [Cell ''Acme'', Cell ''Jane Doe''] = [''Acme'', ''Jane Doe'']"
    by code_simp
  show ?thesis
    by (simp add: parse_contacts_def demo_env_def demo_read_csv_def and_then_def row_step_def
        v py_in_def demo_csv_no_contact_def demo_csv_def)
qed

lemma demo_fetch:
  "fetch_google_sheet (demo_env a p 200 body_text smtp) world0 (sheet_url demo_request)
     = (Inr body_text,
        world0\<lparr>http_log := [''https://docs.google.com/spreadsheets/d/ABC123/export?format=csv&gid=0'']\<rparr>)"
proof -
  have "requests_get (demo_env a p 200 body_text smtp) (http_log world0)
          (export_url_of (spec_document_id ''ABC123'') (tab_id_cut_at_gid ''ABC123''))
        = Inr \<lparr>status_code = 200, resp_text = body_text\<rparr>"
    by (simp add: demo_env_def)
  from fetch_google_sheet_response[OF this] show ?thesis
    by (simp add: demo_request_def demo_export_url world0_def)
qed

lemma answers_pointwise:
  assumes "\<And>log a. smtp_server env log a = g a"
  shows "answers env log atts = map g atts"
  by (induction atts arbitrary: log) (simp_all add: assms)


section \<open>Batch dispatch\<close>

lemma batch_loop_run:
  assumes "truthy (GMAIL_ADDRESS env)" and "truthy (GMAIL_APP_PASSWORD env)"
    and "\<forall>c \<in> set contacts. renders_ok env request c"
  shows "\<exists>outs atts w'. send_loop env request w contacts [] = (Inr outs, w')
           \<and> smtp_log w' = smtp_log w @ atts
           \<and> map (\<lambda>a. msg_to (mail a)) atts = map email contacts
           \<and> map outcome_email outs = map email contacts
           \<and> map outcome_success outs
               = map (\<lambda>r. r = Delivered) (answers env (smtp_log w) atts)
           \<and> (Delivered \<notin> set (answers env (smtp_log w) atts) \<longrightarrow>
                length outs = length contacts
                \<and> summarize contacts outs =
                    \<lparr>summary_total = int (length contacts), summary_success = 0,
                     summary_failed = int (length contacts), summary_results = outs\<rparr>)"
proof -
  from send_loop_answers[OF assms, of w "[]"] obtain outs atts w' where
    loop: "send_loop env request w contacts [] = (Inr outs, w')"
    and l: "smtp_log w' = smtp_log w @ atts"
    and t: "map (\<lambda>a. msg_to (mail a)) atts = map email contacts"
    and e: "map outcome_email outs = map email contacts"
    and k: "map outcome_success outs
              = map (\<lambda>r. r = Delivered) (answers env (smtp_log w) atts)" by auto
  have len: "length outs = length contacts" using e by (rule map_eq_imp_length_eq)
  have "Delivered \<notin> set (answers env (smtp_log w) atts) \<longrightarrow>
          length outs = length contacts
          \<and> summarize contacts outs =
              \<lparr>summary_total = int (length contacts), summary_success = 0,
               summary_failed = int (length contacts), summary_results = outs\<rparr>"
    using no_delivery_no_success[OF k] summarize_all_failed[of outs contacts] len by blast
  with loop l t e k show ?thesis by blast
qed

lemma batch_endpoint_run:
  assumes "truthy (GMAIL_ADDRESS env)" and "truthy (GMAIL_APP_PASSWORD env)"
    and "fetch_google_sheet env w (sheet_url request) = (Inr csv_data, w1)"
    and "parse_contacts env csv_data = Inr contacts" and "contacts \<noteq> []"
    and "\<forall>c \<in> set contacts. renders_ok env request c"
  shows "\<exists>outs atts w'. send_from_google_sheet env w request
                          = (Inr (summarize contacts outs), w')
           \<and> smtp_log w' = smtp_log w1 @ atts
           \<and> map (\<lambda>a. msg_to (mail a)) atts = map email contacts
           \<and> map outcome_email outs = map email contacts
           \<and> map outcome_success outs
               = map (\<lambda>r. r = Delivered) (answers env (smtp_log w1) atts)
           \<and> (Delivered \<notin> set (answers env (smtp_log w1) atts) \<longrightarrow>
                length outs = length contacts
                \<and> summarize contacts outs =
                    \<lparr>summary_total = int (length contacts), summary_success = 0,
                     summary_failed = int (length contacts), summary_results = outs\<rparr>)"
proof -
  from batch_loop_run[OF assms(1,2,6), of w1] obtain outs atts w' where
    loop: "send_loop env request w1 contacts [] = (Inr outs, w')"
    and rest: "smtp_log w' = smtp_log w1 @ atts"
      "map (\<lambda>a. msg_to (mail a)) atts = map email contacts"
      "map outcome_email outs = map email contacts"
      "map outcome_success outs = map (\<lambda>r. r = Delivered) (answers env (smtp_log w1) atts)"
      "Delivered \<notin> set (answers env (smtp_log w1) atts) \<longrightarrow>
         length outs = length contacts
         \<and> summarize contacts outs =
             \<lparr>summary_total = int (length contacts), summary_success = 0,
              summary_failed = int (length contacts), summary_results = outs\<rparr>"
    by blast
  have "send_from_google_sheet env w request = (Inr (summarize contacts outs), w')"
    using send_from_google_sheet_runs[OF assms(1,2,3,4,5)] loop by simp
  with rest show ?thesis by blast
qed




lemma count_outcomes:
  "int (length (filter (\<lambda>r. \<not> outcome_success r) outs))
     = int (length outs) - int (length (filter outcome_success outs))"
  using sum_length_filter_compl[of outcome_success outs] by simp

text \<open>
  Claim C9. The summary a batch dispatch returns has a total equal to the number of
  extracted contacts and to the sum of its success and failure counts, which count the
  successful and the failed outcomes; its outcomes are one per contact, in the order of
  the contact list. The dispatch does return a summary when the credentials are
  configured, the sheet is fetched, the extraction gives a non-empty list and the
  templates render. The counts of the batch tool's loop add up to the number of
  contacts, and in send mode it attempts one SMTP session per contact, in order.
\<close>

theorem batch_summary_invariant:
  "(send_from_google_sheet env w request = (Inr s, w') \<longrightarrow>
      (\<exists>csv_data w1 contacts.
          fetch_google_sheet env w (sheet_url request) = (Inr csv_data, w1)
          \<and> parse_contacts env csv_data = Inr contacts
          \<and> summary_total s = int (length contacts)
          \<and> summary_total s = summary_success s + summary_failed s
          \<and> summary_success s = int (length (filter outcome_success (summary_results s)))
          \<and> summary_failed s = int (length (filter (\<lambda>r. \<not> outcome_success r) (summary_results s)))
          \<and> map outcome_email (summary_results s) = map email contacts))
   \<and> (truthy (GMAIL_ADDRESS env) \<and> truthy (GMAIL_APP_PASSWORD env)
        \<and> fetch_google_sheet env w (sheet_url request) = (Inr csv_text, w0)
        \<and> parse_contacts env csv_text = Inr extracted \<and> extracted \<noteq> []
        \<and> (\<forall>c \<in> set extracted. renders_ok env request c)
      \<longrightarrow> (\<exists>s w'. send_from_google_sheet env w request = (Inr s, w')))
   \<and> (main_dispatch env preview delay w contacts = (Inr (sc, fc), w'') \<longrightarrow>
        sc + fc = int (length contacts) \<and> 0 \<le> sc \<and> 0 \<le> fc
        \<and> (\<not> preview \<longrightarrow>
             (\<exists>atts. smtp_log w'' = smtp_log w @ atts
                \<and> map (\<lambda>a. msg_to (mail a)) atts = map email contacts)))"
proof -
  have part1: "send_from_google_sheet env w request = (Inr s, w') \<longrightarrow>
      (\<exists>csv_data w1 contacts.
          fetch_google_sheet env w (sheet_url request) = (Inr csv_data, w1)
          \<and> parse_contacts env csv_data = Inr contacts
          \<and> summary_total s = int (length contacts)
          \<and> summary_total s = summary_success s + summary_failed s
          \<and> summary_success s = int (length (filter outcome_success (summary_results s)))
          \<and> summary_failed s = int (length (filter (\<lambda>r. \<not> outcome_success r) (summary_results s)))
          \<and> map outcome_email (summary_results s) = map email contacts)"
  proof
  assume "send_from_google_sheet env w request = (Inr s, w')"
  from send_from_google_sheet_Inr[OF this] obtain csv_data w1 contacts outs where
    f: "fetch_google_sheet env w (sheet_url request) = (Inr csv_data, w1)"
    and p: "parse_contacts env csv_data = Inr contacts"
    and loop: "send_loop env request w1 contacts [] = (Inr outs, w')"
    and s: "s = summarize contacts outs" by blast
  from send_loop_Inr[OF loop] have emails: "map outcome_email outs = map email contacts" by simp
  then have len: "length outs = length contacts" by (rule map_eq_imp_length_eq)
  have "summary_total s = int (length contacts)"
    and "summary_total s = summary_success s + summary_failed s"
    and "summary_success s = int (length (filter outcome_success (summary_results s)))"
    and "summary_failed s = int (length (filter (\<lambda>r. \<not> outcome_success r) (summary_results s)))"
    and "map outcome_email (summary_results s) = map email contacts"
    using emails len by (simp_all add: s summarize_fields count_outcomes)
  with f p show "\<exists>csv_data w1 contacts.
          fetch_google_sheet env w (sheet_url request) = (Inr csv_data, w1)
          \<and> parse_contacts env csv_data = Inr contacts
          \<and> summary_total s = int (length contacts)
          \<and> summary_total s = summary_success s + summary_failed s
          \<and> summary_success s = int (length (filter outcome_success (summary_results s)))
          \<and> summary_failed s = int (length (filter (\<lambda>r. \<not> outcome_success r) (summary_results s)))
          \<and> map outcome_email (summary_results s) = map email contacts" by blast
  qed
  have part2: "truthy (GMAIL_ADDRESS env) \<and> truthy (GMAIL_APP_PASSWORD env)
        \<and> fetch_google_sheet env w (sheet_url request) = (Inr csv_text, w0)
        \<and> parse_contacts env csv_text = Inr extracted \<and> extracted \<noteq> []
        \<and> (\<forall>c \<in> set extracted. renders_ok env request c)
      \<longrightarrow> (\<exists>s w'. send_from_google_sheet env w request = (Inr s, w'))"
  proof
  assume h: "truthy (GMAIL_ADDRESS env) \<and> truthy (GMAIL_APP_PASSWORD env)
        \<and> fetch_google_sheet env w (sheet_url request) = (Inr csv_text, w0)
        \<and> parse_contacts env csv_text = Inr extracted \<and> extracted \<noteq> []
        \<and> (\<forall>c \<in> set extracted. renders_ok env request c)"
  then have r: "\<forall>c \<in> set extracted. renders_ok env request c" by blast
  from send_loop_ok[OF r, of w0 "[]"] obtain outs w' where
    "send_loop env request w0 extracted [] = (Inr outs, w')" by auto
  with h send_from_google_sheet_runs[of env w request csv_text w0 extracted]
  show "\<exists>s w'. send_from_google_sheet env w request = (Inr s, w')" by simp
  qed
  have part3: "main_dispatch env preview delay w contacts = (Inr (sc, fc), w'') \<longrightarrow>
        sc + fc = int (length contacts) \<and> 0 \<le> sc \<and> 0 \<le> fc
        \<and> (\<not> preview \<longrightarrow>
             (\<exists>atts. smtp_log w'' = smtp_log w @ atts
                \<and> map (\<lambda>a. msg_to (mail a)) atts = map email contacts))"
  proof
  assume d: "main_dispatch env preview delay w contacts = (Inr (sc, fc), w'')"
  from main_dispatch_Inr[OF d] obtain w1 where
    loop: "main_loop env preview delay w 0 contacts 0 0 = (Inr (sc, fc), w1)" by blast
  have log: "smtp_log w'' = smtp_log w1"
    using d loop by (auto simp: main_dispatch_def)
  from main_loop_Inr[OF loop] log
  show "sc + fc = int (length contacts) \<and> 0 \<le> sc \<and> 0 \<le> fc
        \<and> (\<not> preview \<longrightarrow>
             (\<exists>atts. smtp_log w'' = smtp_log w @ atts
                \<and> map (\<lambda>a. msg_to (mail a)) atts = map email contacts))" by simp
  qed
  show ?thesis by (rule conjI[OF part1 conjI[OF part2 part3]])
qed

text \<open>Witness of C9: the demo sheet, sent through a server that delivers.\<close>

theorem batch_summary_invariant_witness:
  "\<exists>s w'. send_from_google_sheet
             (demo_env (Some ''me@gmail.com'') (Some ''app-password'') 200 demo_csv Delivered)
             world0 demo_request = (Inr s, w')
     \<and> summary_total s = 2
     \<and> summary_success s + summary_failed s = 2
     \<and> map outcome_email (summary_results s) = [''a@b.com'', ''hr@initech.com'']"
proof -
  let ?env = "demo_env (Some ''me@gmail.com'') (Some ''app-password'') 200 demo_csv Delivered"
  let ?w0 = "world0\<lparr>http_log := [''https://docs.google.com/spreadsheets/d/ABC123/export?format=csv&gid=0'']\<rparr>"
  have fmt: "str_format ?env = plain_format" by (simp add: demo_env_def)
  have r: "\<forall>c \<in> set demo_contacts. renders_ok ?env demo_request c"
    using renders_ok_default[OF fmt] by (simp add: demo_request_def)
  have creds: "truthy (GMAIL_ADDRESS ?env)" "truthy (GMAIL_APP_PASSWORD ?env)"
    by (simp_all add: demo_env_def truthy_def)
  have fetch: "fetch_google_sheet ?env world0 (sheet_url demo_request) = (Inr demo_csv, ?w0)"
    by (rule demo_fetch)
  have parse: "parse_contacts ?env demo_csv = Inr demo_contacts" by (rule demo_parse)
  have ne: "demo_contacts \<noteq> []" by (simp add: demo_contacts_def)
  have "\<exists>s w'. send_from_google_sheet ?env world0 demo_request = (Inr s, w')"
    using batch_summary_invariant[where env = ?env and w = world0 and request = demo_request
        and csv_text = demo_csv and ?w0.0 = ?w0 and extracted = demo_contacts]
      creds fetch parse ne r by blast
  then obtain s w' where run: "send_from_google_sheet ?env world0 demo_request = (Inr s, w')"
    by blast
  from batch_summary_invariant[where env = ?env and w = world0 and request = demo_request
        and s = s and w' = w'] run
  obtain csv_data w1 contacts where
    f1: "fetch_google_sheet ?env world0 (sheet_url demo_request) = (Inr csv_data, w1)"
    and p1: "parse_contacts ?env csv_data = Inr contacts"
    and props: "summary_total s = int (length contacts)"
      "summary_total s = summary_success s + summary_failed s"
      "map outcome_email (summary_results s) = map email contacts"
    by blast
  from f1 fetch have "csv_data = demo_csv" by simp
  with p1 parse have "contacts = demo_contacts" by simp
  with props have "summary_total s = 2 \<and> summary_success s + summary_failed s = 2
     \<and> map outcome_email (summary_results s) = [''a@b.com'', ''hr@initech.com'']"
    by (simp add: demo_contacts_def)
  with run show ?thesis by (intro exI[of _ s] exI[of _ w']) simp
qed

section \<open>Single send and preview\<close>

lemma py_or_truthy: "truthy a \<Longrightarrow> py_or a b = a"
  by (simp add: py_or_def)

lemma or_default_truthy: "truthy a \<Longrightarrow> Some (or_default a d) = a"
  by (cases a) (auto simp: truthy_def or_default_def)

lemma or_default_falsy: "\<not> truthy a \<Longrightarrow> or_default a d = d"
  by (cases a) (auto simp: truthy_def or_default_def)

lemma send_single_no_credentials:
  assumes "\<not> truthy (py_or (req_sender_email rq) (GMAIL_ADDRESS env))
           \<or> \<not> truthy (py_or (req_sender_password rq) (GMAIL_APP_PASSWORD env))"
  shows "send_single_email env w rq =
           (Inl (HTTPException 400 ''Please provide your Gmail address and App Password''), w)"
  using assms by (auto simp: send_single_email_def Let_def)

lemma send_single_render_error:
  assumes "truthy (py_or (req_sender_email rq) (GMAIL_ADDRESS env))"
    and "truthy (py_or (req_sender_password rq) (GMAIL_APP_PASSWORD env))"
    and "preview_email env rq = Inl e"
  shows "send_single_email env w rq = (Inl e, w)"
proof -
  have sender: "Some (or_default (py_or (req_sender_email rq) (GMAIL_ADDRESS env))
                        ''your.email@gmail.com'')
                = py_or (req_sender_email rq) (GMAIL_ADDRESS env)"
    using assms(1) by (rule or_default_truthy)
  show ?thesis using assms
    by (auto simp: send_single_email_def preview_email_def Let_def and_then_def sender
        split: sum.splits)
qed

lemma send_single_session:
  assumes "truthy (py_or (req_sender_email rq) (GMAIL_ADDRESS env))"
    and "truthy (py_or (req_sender_password rq) (GMAIL_APP_PASSWORD env))"
    and "preview_email env rq = Inr p"
  shows "send_single_email env w rq =
           (case smtp_server env (smtp_log w)
                   \<lparr>login_user = py_or (req_sender_email rq) (GMAIL_ADDRESS env),
                    login_password = py_or (req_sender_password rq) (GMAIL_APP_PASSWORD env),
                    mail = \<lparr>msg_from = py_or (req_sender_email rq) (GMAIL_ADDRESS env),
                             msg_to = preview_to_email p, msg_subject = preview_subject p,
                             msg_body = preview_body p\<rparr>\<rparr> of
              Delivered \<Rightarrow>
                Inr \<lparr>result_success = True,
                     result_message = ''Email sent to '' @ req_hr_name rq @ '' at ''
                        @ req_company_name rq,
                     result_email = req_to_email rq\<rparr>
            | SMTPAuthenticationError m \<Rightarrow>
                Inl (HTTPException 401
                   ''Gmail authentication failed. Check your email and app password.'')
            | SMTPFailure e \<Rightarrow> Inl (HTTPException 500 (''Failed to send email: '' @ e)),
            w\<lparr>smtp_log := smtp_log w @
                 [\<lparr>login_user = py_or (req_sender_email rq) (GMAIL_ADDRESS env),
                   login_password = py_or (req_sender_password rq) (GMAIL_APP_PASSWORD env),
                   mail = \<lparr>msg_from = py_or (req_sender_email rq) (GMAIL_ADDRESS env),
                            msg_to = preview_to_email p, msg_subject = preview_subject p,
                            msg_body = preview_body p\<rparr>\<rparr>]\<rparr>)
         \<and> preview_to_email p = req_to_email rq"
proof -
  let ?sender = "py_or (req_sender_email rq) (GMAIL_ADDRESS env)"
  let ?password = "py_or (req_sender_password rq) (GMAIL_APP_PASSWORD env)"
  have sender: "Some (or_default ?sender ''your.email@gmail.com'') = ?sender"
    using assms(1) by (rule or_default_truthy)
  from assms(3) obtain subject body where
    s: "str_format env (or_default (req_subject rq) DEFAULT_SUBJECT)
          [(''company_name'', Some (req_company_name rq)), (''hr_name'', Some (req_hr_name rq))]
        = Inr subject"
    and b: "str_format env (or_default (req_body rq) DEFAULT_BODY)
          [(''company_name'', Some (req_company_name rq)), (''hr_name'', Some (req_hr_name rq)),
           (''sender_email'', ?sender)] = Inr body"
    and p: "p = \<lparr>preview_to_email = req_to_email rq, preview_subject = subject,
                 preview_body = body\<rparr>"
    by (auto simp: preview_email_def Let_def and_then_def sender split: sum.splits)
  have t1: "truthy (py_or ?sender (GMAIL_ADDRESS env))"
    and t2: "truthy (py_or ?password (GMAIL_APP_PASSWORD env))"
    using assms(1,2) by (simp_all add: py_or_truthy)
  have o1: "py_or ?sender (GMAIL_ADDRESS env) = ?sender"
    and o2: "py_or ?password (GMAIL_APP_PASSWORD env) = ?password"
    using assms(1,2) by (simp_all add: py_or_truthy)
  show ?thesis
    using assms(1,2) send_email_session[OF t1 t2, of w "req_to_email rq" subject body]
    by (simp add: send_single_email_def Let_def s b p o1 o2 split: smtp_result.splits)
qed

lemma preview_Inl_or_Inr:
  "renders_ok_single env rq
     (Some (or_default (py_or (req_sender_email rq) (GMAIL_ADDRESS env)) ''your.email@gmail.com''))
   \<Longrightarrow> \<exists>p. preview_email env rq = Inr p"
  unfolding renders_ok_single_def preview_email_def Let_def and_then_def
  by (auto dest!: not_isl_Inr)

lemma send_step_preview:
  assumes "truthy (GMAIL_ADDRESS env)" and "truthy (GMAIL_APP_PASSWORD env)"
  shows "case preview_email env (preview_request_of gr c) of
           Inl e \<Rightarrow> send_step env gr w c results = (Inl e, w)
         | Inr p \<Rightarrow>
             preview_to_email p = email c
             \<and> smtp_log (snd (send_step env gr w c results)) =
                 smtp_log w @
                   [\<lparr>login_user = GMAIL_ADDRESS env, login_password = GMAIL_APP_PASSWORD env,
                     mail = \<lparr>msg_from = GMAIL_ADDRESS env, msg_to = preview_to_email p,
                              msg_subject = preview_subject p, msg_body = preview_body p\<rparr>\<rparr>]"
proof -
  have n: "py_or None (GMAIL_ADDRESS env) = GMAIL_ADDRESS env"
    "py_or None (GMAIL_APP_PASSWORD env) = GMAIL_APP_PASSWORD env"
    by (simp_all add: py_or_def truthy_def)
  have sender: "Some (or_default (GMAIL_ADDRESS env) ''your.email@gmail.com'') = GMAIL_ADDRESS env"
    using assms(1) by (rule or_default_truthy)
  have t: "truthy (py_or None (GMAIL_ADDRESS env))" "truthy (py_or None (GMAIL_APP_PASSWORD env))"
    using assms by (simp_all add: n)
  note session = send_email_session[OF t, of w "email c"]
  show ?thesis
    by (auto simp: preview_email_def preview_request_of_def send_step_def Let_def and_then_def
        n sender session split: sum.splits smtp_result.splits)
qed

lemma send_email_cli_modes:
  "case send_email_cli env w to_email name company True of
     (Inl e, w1) \<Rightarrow> w1 = w \<and> send_email_cli env w to_email name company False = (Inl e, w)
   | (Inr r, w1) \<Rightarrow>
       r \<and> (\<exists>subject body.
              stdout w1 = stdout w @
                [''\<newline>'' @ replicate 60 (CHR ''=''), ''TO: '' @ to_email,
                 ''SUBJECT: '' @ subject, replicate 60 (CHR ''-''), body,
                 replicate 60 (CHR ''='')]
              \<and> smtp_log (snd (send_email_cli env w to_email name company False)) =
                  smtp_log w @
                    [\<lparr>login_user = GMAIL_ADDRESS env, login_password = GMAIL_APP_PASSWORD env,
                      mail = \<lparr>msg_from = GMAIL_ADDRESS env, msg_to = to_email,
                               msg_subject = subject, msg_body = body\<rparr>\<rparr>])"
  by (auto simp: send_email_cli_def Let_def split: sum.splits smtp_result.splits)

text \<open>
  Claim C8. The subject and the body of a preview are the subject and the body that
  the send transmits. In the Service API, for a request whose credentials are present:
  if the preview fails to render, the single send fails with the same error and
  attempts no session; otherwise the single send attempts exactly one session, whose
  message has the recipient, the subject and the body of the preview. The same holds
  between the preview of a contact of a batch and the loop body of the batch send. In
  the batch tool, the preview mode prints the recipient, the subject and the body that
  the send mode hands to its one SMTP session, and both modes fail alike when a
  template does not render. Rendering reads no state: \<open>preview_email\<close> is a function of
  the environment and the request alone, so rendering twice gives the same strings.
\<close>

theorem preview_matches_send:
  "(truthy (py_or (req_sender_email rq) (GMAIL_ADDRESS env))
      \<and> truthy (py_or (req_sender_password rq) (GMAIL_APP_PASSWORD env)) \<longrightarrow>
      (case preview_email env rq of
         Inl e \<Rightarrow> send_single_email env w rq = (Inl e, w)
       | Inr p \<Rightarrow>
           preview_to_email p = req_to_email rq
           \<and> smtp_log (snd (send_single_email env w rq)) =
               smtp_log w @
                 [\<lparr>login_user = py_or (req_sender_email rq) (GMAIL_ADDRESS env),
                   login_password = py_or (req_sender_password rq) (GMAIL_APP_PASSWORD env),
                   mail = \<lparr>msg_from = py_or (req_sender_email rq) (GMAIL_ADDRESS env),
                            msg_to = preview_to_email p, msg_subject = preview_subject p,
                            msg_body = preview_body p\<rparr>\<rparr>]))
   \<and> (truthy (GMAIL_ADDRESS env) \<and> truthy (GMAIL_APP_PASSWORD env) \<longrightarrow>
      (case preview_email env (preview_request_of gr c) of
         Inl e \<Rightarrow> send_step env gr w c results = (Inl e, w)
       | Inr p \<Rightarrow>
           preview_to_email p = email c
           \<and> smtp_log (snd (send_step env gr w c results)) =
               smtp_log w @
                 [\<lparr>login_user = GMAIL_ADDRESS env, login_password = GMAIL_APP_PASSWORD env,
                   mail = \<lparr>msg_from = GMAIL_ADDRESS env, msg_to = preview_to_email p,
                            msg_subject = preview_subject p, msg_body = preview_body p\<rparr>\<rparr>]))
   \<and> (case send_email_cli env w to_email name company True of
         (Inl e, w1) \<Rightarrow> w1 = w \<and> send_email_cli env w to_email name company False = (Inl e, w)
       | (Inr r, w1) \<Rightarrow>
           r \<and> (\<exists>subject body.
                  stdout w1 = stdout w @
                    [''\<newline>'' @ replicate 60 (CHR ''=''), ''TO: '' @ to_email,
                     ''SUBJECT: '' @ subject, replicate 60 (CHR ''-''), body,
                     replicate 60 (CHR ''='')]
                  \<and> smtp_log (snd (send_email_cli env w to_email name company False)) =
                      smtp_log w @
                        [\<lparr>login_user = GMAIL_ADDRESS env,
                          login_password = GMAIL_APP_PASSWORD env,
                          mail = \<lparr>msg_from = GMAIL_ADDRESS env, msg_to = to_email,
                                   msg_subject = subject, msg_body = body\<rparr>\<rparr>]))"
proof -
  have single: "truthy (py_or (req_sender_email rq) (GMAIL_ADDRESS env))
      \<and> truthy (py_or (req_sender_password rq) (GMAIL_APP_PASSWORD env)) \<longrightarrow>
      (case preview_email env rq of
         Inl e \<Rightarrow> send_single_email env w rq = (Inl e, w)
       | Inr p \<Rightarrow>
           preview_to_email p = req_to_email rq
           \<and> smtp_log (snd (send_single_email env w rq)) =
               smtp_log w @
                 [\<lparr>login_user = py_or (req_sender_email rq) (GMAIL_ADDRESS env),
                   login_password = py_or (req_sender_password rq) (GMAIL_APP_PASSWORD env),
                   mail = \<lparr>msg_from = py_or (req_sender_email rq) (GMAIL_ADDRESS env),
                            msg_to = preview_to_email p, msg_subject = preview_subject p,
                            msg_body = preview_body p\<rparr>\<rparr>])"
  proof
    assume h: "truthy (py_or (req_sender_email rq) (GMAIL_ADDRESS env))
      \<and> truthy (py_or (req_sender_password rq) (GMAIL_APP_PASSWORD env))"
    show "case preview_email env rq of
         Inl e \<Rightarrow> send_single_email env w rq = (Inl e, w)
       | Inr p \<Rightarrow>
           preview_to_email p = req_to_email rq
           \<and> smtp_log (snd (send_single_email env w rq)) =
               smtp_log w @
                 [\<lparr>login_user = py_or (req_sender_email rq) (GMAIL_ADDRESS env),
                   login_password = py_or (req_sender_password rq) (GMAIL_APP_PASSWORD env),
                   mail = \<lparr>msg_from = py_or (req_sender_email rq) (GMAIL_ADDRESS env),
                            msg_to = preview_to_email p, msg_subject = preview_subject p,
                            msg_body = preview_body p\<rparr>\<rparr>]"
    proof (cases "preview_email env rq")
      case (Inl e)
      with h send_single_render_error[of rq env e w] show ?thesis by simp
    next
      case (Inr p)
      with h send_single_session[of rq env p w] show ?thesis by simp
    qed
  qed
  have batch: "truthy (GMAIL_ADDRESS env) \<and> truthy (GMAIL_APP_PASSWORD env) \<longrightarrow>
      (case preview_email env (preview_request_of gr c) of
         Inl e \<Rightarrow> send_step env gr w c results = (Inl e, w)
       | Inr p \<Rightarrow>
           preview_to_email p = email c
           \<and> smtp_log (snd (send_step env gr w c results)) =
               smtp_log w @
                 [\<lparr>login_user = GMAIL_ADDRESS env, login_password = GMAIL_APP_PASSWORD env,
                   mail = \<lparr>msg_from = GMAIL_ADDRESS env, msg_to = preview_to_email p,
                            msg_subject = preview_subject p, msg_body = preview_body p\<rparr>\<rparr>])"
    using send_step_preview[of env] by blast
  show ?thesis
    by (rule conjI[OF single conjI[OF batch send_email_cli_modes]])
qed

text \<open>
  Claim C10. For a request that supplies no sender address, on a server without a
  configured address, the single send raises the missing-credentials error (status
  400), while the preview needs no credentials: it renders the body with the literal
  sender \<open>your.email@gmail.com\<close> and returns the preview whenever the two templates
  render. No password, of the request or of the server, has any influence on a preview.
\<close>

theorem preview_needs_no_credentials:
  assumes "\<not> truthy (req_sender_email rq)" and "\<not> truthy (GMAIL_ADDRESS env)"
  shows "send_single_email env w rq =
           (Inl (HTTPException 400 ''Please provide your Gmail address and App Password''), w)
         \<and> (renders_ok_single env rq (Some ''your.email@gmail.com'') \<longrightarrow>
              (\<exists>subject body.
                 str_format env (or_default (req_subject rq) DEFAULT_SUBJECT)
                   [(''company_name'', Some (req_company_name rq)),
                    (''hr_name'', Some (req_hr_name rq))] = Inr subject
                 \<and> str_format env (or_default (req_body rq) DEFAULT_BODY)
                     [(''company_name'', Some (req_company_name rq)),
                      (''hr_name'', Some (req_hr_name rq)),
                      (''sender_email'', Some ''your.email@gmail.com'')] = Inr body
                 \<and> preview_email env rq =
                     Inr \<lparr>preview_to_email = req_to_email rq, preview_subject = subject,
                          preview_body = body\<rparr>))
         \<and> preview_email (env\<lparr>GMAIL_APP_PASSWORD := pw\<rparr>) (rq\<lparr>req_sender_password := rpw\<rparr>)
             = preview_email env rq"
proof -
  have falsy: "\<not> truthy (py_or (req_sender_email rq) (GMAIL_ADDRESS env))"
    using assms by (simp add: py_or_def)
  then have sender: "or_default (py_or (req_sender_email rq) (GMAIL_ADDRESS env))
                 ''your.email@gmail.com'' = ''your.email@gmail.com''"
    by (rule or_default_falsy)
  have a: "send_single_email env w rq =
           (Inl (HTTPException 400 ''Please provide your Gmail address and App Password''), w)"
    using falsy by (intro send_single_no_credentials) simp
  have b: "renders_ok_single env rq (Some ''your.email@gmail.com'') \<longrightarrow>
              (\<exists>subject body.
                 str_format env (or_default (req_subject rq) DEFAULT_SUBJECT)
                   [(''company_name'', Some (req_company_name rq)),
                    (''hr_name'', Some (req_hr_name rq))] = Inr subject
                 \<and> str_format env (or_default (req_body rq) DEFAULT_BODY)
                     [(''company_name'', Some (req_company_name rq)),
                      (''hr_name'', Some (req_hr_name rq)),
                      (''sender_email'', Some ''your.email@gmail.com'')] = Inr body
                 \<and> preview_email env rq =
                     Inr \<lparr>preview_to_email = req_to_email rq, preview_subject = subject,
                          preview_body = body\<rparr>)"
    unfolding renders_ok_single_def preview_email_def Let_def and_then_def sender
    by (auto dest!: not_isl_Inr)
  have c: "preview_email (env\<lparr>GMAIL_APP_PASSWORD := pw\<rparr>) (rq\<lparr>req_sender_password := rpw\<rparr>)
             = preview_email env rq"
    by (simp add: preview_email_def)
  from a b c show ?thesis by blast
qed

section \<open>Client-facing statuses\<close>

lemma send_single_statuses:
  assumes "truthy (py_or (req_sender_email rq) (GMAIL_ADDRESS env))"
    and "truthy (py_or (req_sender_password rq) (GMAIL_APP_PASSWORD env))"
    and "renders_ok_single env rq (py_or (req_sender_email rq) (GMAIL_ADDRESS env))"
  shows "\<exists>a r. send_single_email env w rq = (r, w\<lparr>smtp_log := smtp_log w @ [a]\<rparr>)
           \<and> login_user a = py_or (req_sender_email rq) (GMAIL_ADDRESS env)
           \<and> login_password a = py_or (req_sender_password rq) (GMAIL_APP_PASSWORD env)
           \<and> msg_to (mail a) = req_to_email rq
           \<and> (is_auth_error (smtp_server env (smtp_log w) a) \<longrightarrow>
                (\<exists>e. r = Inl e \<and> status_of e = 401))
           \<and> (is_other_failure (smtp_server env (smtp_log w) a) \<longrightarrow>
                (\<exists>e. r = Inl e \<and> status_of e = 500))
           \<and> (smtp_server env (smtp_log w) a = Delivered \<longrightarrow> (\<exists>s. r = Inr s))"
proof -
  have sender: "Some (or_default (py_or (req_sender_email rq) (GMAIL_ADDRESS env))
                        ''your.email@gmail.com'')
                = py_or (req_sender_email rq) (GMAIL_ADDRESS env)"
    using assms(1) by (rule or_default_truthy)
  from assms(3) have "\<exists>p. preview_email env rq = Inr p"
    using preview_Inl_or_Inr[of env rq] by (simp add: sender)
  then obtain p where p: "preview_email env rq = Inr p" by blast
  note run = send_single_session[OF assms(1,2) p, of w, THEN conjunct1]
  note to = send_single_session[OF assms(1,2) p, of w, THEN conjunct2]
  let ?a = "\<lparr>login_user = py_or (req_sender_email rq) (GMAIL_ADDRESS env),
             login_password = py_or (req_sender_password rq) (GMAIL_APP_PASSWORD env),
             mail = \<lparr>msg_from = py_or (req_sender_email rq) (GMAIL_ADDRESS env),
                      msg_to = preview_to_email p, msg_subject = preview_subject p,
                      msg_body = preview_body p\<rparr>\<rparr>"
  let ?r = "fst (send_single_email env w rq)"
  have w': "send_single_email env w rq = (?r, w\<lparr>smtp_log := smtp_log w @ [?a]\<rparr>)"
    unfolding run by simp
  have auth: "is_auth_error (smtp_server env (smtp_log w) ?a) \<longrightarrow>
                (\<exists>e. ?r = Inl e \<and> status_of e = 401)"
    unfolding run by (cases "smtp_server env (smtp_log w) ?a") simp_all
  have other: "is_other_failure (smtp_server env (smtp_log w) ?a) \<longrightarrow>
                (\<exists>e. ?r = Inl e \<and> status_of e = 500)"
    unfolding run by (cases "smtp_server env (smtp_log w) ?a") simp_all
  have ok: "smtp_server env (smtp_log w) ?a = Delivered \<longrightarrow> (\<exists>s. ?r = Inr s)"
    unfolding run by simp
  have fields: "login_user ?a = py_or (req_sender_email rq) (GMAIL_ADDRESS env)"
    "login_password ?a = py_or (req_sender_password rq) (GMAIL_APP_PASSWORD env)"
    "msg_to (mail ?a) = req_to_email rq"
    by (simp_all add: to)
  show ?thesis
    by (intro exI[of _ ?a] exI[of _ ?r] conjI w' fields auth other ok)
qed

lemma fetch_contacts_statuses:
  assumes "requests_get env (http_log w)
             (export_url_of (spec_document_id (sheet_url gr)) (tab_id_cut_at_gid (sheet_url gr)))
           = Inr response"
  shows "(status_code response \<noteq> 200 \<longrightarrow>
            (\<exists>e w'. fetch_contacts env w gr = (Inl e, w') \<and> status_of e = 400))
         \<and> (status_code response = 200 \<and> parse_contacts env (resp_text response) = Inr [] \<longrightarrow>
            (\<exists>e w'. fetch_contacts env w gr = (Inl e, w') \<and> status_of e = 404))"
  using fetch_google_sheet_response[OF assms]
  by (auto simp: fetch_contacts_def)

lemma send_from_google_sheet_unconfigured:
  assumes "\<not> truthy (GMAIL_ADDRESS env) \<or> \<not> truthy (GMAIL_APP_PASSWORD env)"
  shows "send_from_google_sheet env w gr =
           (Inl (HTTPException 500 ''Gmail credentials not configured''), w)"
  using assms by (auto simp: send_from_google_sheet_def)

lemma send_from_google_sheet_statuses:
  assumes "truthy (GMAIL_ADDRESS env)" and "truthy (GMAIL_APP_PASSWORD env)"
    and "requests_get env (http_log w)
             (export_url_of (spec_document_id (sheet_url gr)) (tab_id_cut_at_gid (sheet_url gr)))
           = Inr response"
  shows "(status_code response \<noteq> 200 \<longrightarrow>
            (\<exists>e w'. send_from_google_sheet env w gr = (Inl e, w') \<and> status_of e = 400))
         \<and> (status_code response = 200 \<and> parse_contacts env (resp_text response) = Inr [] \<longrightarrow>
            (\<exists>e w'. send_from_google_sheet env w gr = (Inl e, w') \<and> status_of e = 404))
         \<and> (status_code response = 200
              \<and> parse_contacts env (resp_text response) = Inr contacts \<and> contacts \<noteq> []
              \<and> (\<forall>c \<in> set contacts. renders_ok env gr c) \<longrightarrow>
            (\<exists>outs atts w'. send_from_google_sheet env w gr
                              = (Inr (summarize contacts outs), w')
               \<and> smtp_log w' = smtp_log w @ atts
               \<and> map (\<lambda>a. msg_to (mail a)) atts = map email contacts
               \<and> map outcome_email outs = map email contacts
               \<and> map outcome_success outs
                   = map (\<lambda>r. r = Delivered) (answers env (smtp_log w) atts)))"
proof -
  note fetch = fetch_google_sheet_response[OF assms(3)]
  have a: "status_code response \<noteq> 200 \<longrightarrow>
            (\<exists>e w'. send_from_google_sheet env w gr = (Inl e, w') \<and> status_of e = 400)"
    using assms(1,2) fetch by (auto simp: send_from_google_sheet_def)
  have b: "status_code response = 200 \<and> parse_contacts env (resp_text response) = Inr [] \<longrightarrow>
            (\<exists>e w'. send_from_google_sheet env w gr = (Inl e, w') \<and> status_of e = 404)"
    using assms(1,2) fetch by (auto simp: send_from_google_sheet_def)
  have c: "status_code response = 200
              \<and> parse_contacts env (resp_text response) = Inr contacts \<and> contacts \<noteq> []
              \<and> (\<forall>c \<in> set contacts. renders_ok env gr c) \<longrightarrow>
            (\<exists>outs atts w'. send_from_google_sheet env w gr
                              = (Inr (summarize contacts outs), w')
               \<and> smtp_log w' = smtp_log w @ atts
               \<and> map (\<lambda>a. msg_to (mail a)) atts = map email contacts
               \<and> map outcome_email outs = map email contacts
               \<and> map outcome_success outs
                   = map (\<lambda>r. r = Delivered) (answers env (smtp_log w) atts))"
  proof
    assume h: "status_code response = 200
              \<and> parse_contacts env (resp_text response) = Inr contacts \<and> contacts \<noteq> []
              \<and> (\<forall>c \<in> set contacts. renders_ok env gr c)"
    let ?w1 = "w\<lparr>http_log := http_log w
                 @ [export_url_of (spec_document_id (sheet_url gr))
                      (tab_id_cut_at_gid (sheet_url gr))]\<rparr>"
    from h fetch have f: "fetch_google_sheet env w (sheet_url gr) = (Inr (resp_text response), ?w1)"
      by simp
    from h have p: "parse_contacts env (resp_text response) = Inr contacts"
      and ne: "contacts \<noteq> []" and r: "\<forall>c \<in> set contacts. renders_ok env gr c"
      by blast+
    from batch_endpoint_run[OF assms(1,2) f p ne r] obtain outs atts w' where
      "send_from_google_sheet env w gr = (Inr (summarize contacts outs), w')"
      "smtp_log w' = smtp_log ?w1 @ atts"
      "map (\<lambda>a. msg_to (mail a)) atts = map email contacts"
      "map outcome_email outs = map email contacts"
      "map outcome_success outs = map (\<lambda>r. r = Delivered) (answers env (smtp_log ?w1) atts)"
      by blast
    then show "\<exists>outs atts w'. send_from_google_sheet env w gr
                              = (Inr (summarize contacts outs), w')
               \<and> smtp_log w' = smtp_log w @ atts
               \<and> map (\<lambda>a. msg_to (mail a)) atts = map email contacts
               \<and> map outcome_email outs = map email contacts
               \<and> map outcome_success outs
                   = map (\<lambda>r. r = Delivered) (answers env (smtp_log w) atts)"
      by (intro exI[of _ outs] exI[of _ atts] exI[of _ w']) simp
  qed
  from a b c show ?thesis by blast
qed

text \<open>
  Claim C6, as amended. Single send: missing credentials give status 400; with
  credentials and templates that render, the operation makes one session, with the
  sender's address and password, for the recipient of the request, and when the server
  answers that session with an authentication failure the status is 401, when it
  answers it with any other failure the status is 500, and when it delivers there is no
  error. Fetch contacts: a response with a status other than 200 gives 400, and an
  extraction without contacts gives 404. Batch send: credentials that are not
  configured give 500; with credentials, a response with a status other than 200 gives
  400 and an extraction without contacts gives 404; and once contacts are extracted and
  the templates render, the operation returns a summary whatever the server answers,
  with one outcome per contact in the order of the contacts, the outcome of a contact
  being a failure exactly when its own session was not delivered: a failure of a send
  is no error status there, it is recorded in the outcome of its contact.
\<close>

theorem error_statuses:
  "(\<not> truthy (py_or (req_sender_email rq) (GMAIL_ADDRESS env))
      \<or> \<not> truthy (py_or (req_sender_password rq) (GMAIL_APP_PASSWORD env)) \<longrightarrow>
      (\<exists>e. send_single_email env w rq = (Inl e, w) \<and> status_of e = 400))
   \<and> (truthy (py_or (req_sender_email rq) (GMAIL_ADDRESS env))
        \<and> truthy (py_or (req_sender_password rq) (GMAIL_APP_PASSWORD env))
        \<and> renders_ok_single env rq (py_or (req_sender_email rq) (GMAIL_ADDRESS env)) \<longrightarrow>
      (\<exists>a r. send_single_email env w rq = (r, w\<lparr>smtp_log := smtp_log w @ [a]\<rparr>)
         \<and> login_user a = py_or (req_sender_email rq) (GMAIL_ADDRESS env)
         \<and> login_password a = py_or (req_sender_password rq) (GMAIL_APP_PASSWORD env)
         \<and> msg_to (mail a) = req_to_email rq
         \<and> (is_auth_error (smtp_server env (smtp_log w) a) \<longrightarrow>
              (\<exists>e. r = Inl e \<and> status_of e = 401))
         \<and> (is_other_failure (smtp_server env (smtp_log w) a) \<longrightarrow>
              (\<exists>e. r = Inl e \<and> status_of e = 500))
         \<and> (smtp_server env (smtp_log w) a = Delivered \<longrightarrow> (\<exists>s. r = Inr s))))
   \<and> (requests_get env (http_log w)
         (export_url_of (spec_document_id (sheet_url gr)) (tab_id_cut_at_gid (sheet_url gr)))
        = Inr response \<longrightarrow>
      (status_code response \<noteq> 200 \<longrightarrow>
         (\<exists>e w'. fetch_contacts env w gr = (Inl e, w') \<and> status_of e = 400))
      \<and> (status_code response = 200 \<and> parse_contacts env (resp_text response) = Inr [] \<longrightarrow>
         (\<exists>e w'. fetch_contacts env w gr = (Inl e, w') \<and> status_of e = 404)))
   \<and> (\<not> truthy (GMAIL_ADDRESS env) \<or> \<not> truthy (GMAIL_APP_PASSWORD env) \<longrightarrow>
      (\<exists>e. send_from_google_sheet env w gr = (Inl e, w) \<and> status_of e = 500))
   \<and> (truthy (GMAIL_ADDRESS env) \<and> truthy (GMAIL_APP_PASSWORD env)
        \<and> requests_get env (http_log w)
            (export_url_of (spec_document_id (sheet_url gr)) (tab_id_cut_at_gid (sheet_url gr)))
           = Inr response \<longrightarrow>
      (status_code response \<noteq> 200 \<longrightarrow>
         (\<exists>e w'. send_from_google_sheet env w gr = (Inl e, w') \<and> status_of e = 400))
      \<and> (status_code response = 200 \<and> parse_contacts env (resp_text response) = Inr [] \<longrightarrow>
         (\<exists>e w'. send_from_google_sheet env w gr = (Inl e, w') \<and> status_of e = 404))
      \<and> (status_code response = 200
           \<and> parse_contacts env (resp_text response) = Inr contacts \<and> contacts \<noteq> []
           \<and> (\<forall>c \<in> set contacts. renders_ok env gr c) \<longrightarrow>
         (\<exists>outs atts w'. send_from_google_sheet env w gr
                           = (Inr (summarize contacts outs), w')
            \<and> smtp_log w' = smtp_log w @ atts
            \<and> map (\<lambda>a. msg_to (mail a)) atts = map email contacts
            \<and> map outcome_email outs = map email contacts
            \<and> map outcome_success outs
                = map (\<lambda>r. r = Delivered) (answers env (smtp_log w) atts))))"
proof -
  have p1: "\<not> truthy (py_or (req_sender_email rq) (GMAIL_ADDRESS env))
      \<or> \<not> truthy (py_or (req_sender_password rq) (GMAIL_APP_PASSWORD env)) \<longrightarrow>
      (\<exists>e. send_single_email env w rq = (Inl e, w) \<and> status_of e = 400)"
    using send_single_no_credentials[of rq env w] by auto
  have p2: "truthy (py_or (req_sender_email rq) (GMAIL_ADDRESS env))
        \<and> truthy (py_or (req_sender_password rq) (GMAIL_APP_PASSWORD env))
        \<and> renders_ok_single env rq (py_or (req_sender_email rq) (GMAIL_ADDRESS env)) \<longrightarrow>
      (\<exists>a r. send_single_email env w rq = (r, w\<lparr>smtp_log := smtp_log w @ [a]\<rparr>)
         \<and> login_user a = py_or (req_sender_email rq) (GMAIL_ADDRESS env)
         \<and> login_password a = py_or (req_sender_password rq) (GMAIL_APP_PASSWORD env)
         \<and> msg_to (mail a) = req_to_email rq
         \<and> (is_auth_error (smtp_server env (smtp_log w) a) \<longrightarrow>
              (\<exists>e. r = Inl e \<and> status_of e = 401))
         \<and> (is_other_failure (smtp_server env (smtp_log w) a) \<longrightarrow>
              (\<exists>e. r = Inl e \<and> status_of e = 500))
         \<and> (smtp_server env (smtp_log w) a = Delivered \<longrightarrow> (\<exists>s. r = Inr s)))"
    using send_single_statuses[of rq env w] by blast
  have p3: "requests_get env (http_log w)
         (export_url_of (spec_document_id (sheet_url gr)) (tab_id_cut_at_gid (sheet_url gr)))
        = Inr response \<longrightarrow>
      (status_code response \<noteq> 200 \<longrightarrow>
         (\<exists>e w'. fetch_contacts env w gr = (Inl e, w') \<and> status_of e = 400))
      \<and> (status_code response = 200 \<and> parse_contacts env (resp_text response) = Inr [] \<longrightarrow>
         (\<exists>e w'. fetch_contacts env w gr = (Inl e, w') \<and> status_of e = 404))"
    using fetch_contacts_statuses[of env w gr response] by blast
  have p4: "\<not> truthy (GMAIL_ADDRESS env) \<or> \<not> truthy (GMAIL_APP_PASSWORD env) \<longrightarrow>
      (\<exists>e. send_from_google_sheet env w gr = (Inl e, w) \<and> status_of e = 500)"
    using send_from_google_sheet_unconfigured[of env w gr] by auto
  have p5: "truthy (GMAIL_ADDRESS env) \<and> truthy (GMAIL_APP_PASSWORD env)
        \<and> requests_get env (http_log w)
            (export_url_of (spec_document_id (sheet_url gr)) (tab_id_cut_at_gid (sheet_url gr)))
           = Inr response \<longrightarrow>
      (status_code response \<noteq> 200 \<longrightarrow>
         (\<exists>e w'. send_from_google_sheet env w gr = (Inl e, w') \<and> status_of e = 400))
      \<and> (status_code response = 200 \<and> parse_contacts env (resp_text response) = Inr [] \<longrightarrow>
         (\<exists>e w'. send_from_google_sheet env w gr = (Inl e, w') \<and> status_of e = 404))
      \<and> (status_code response = 200
           \<and> parse_contacts env (resp_text response) = Inr contacts \<and> contacts \<noteq> []
           \<and> (\<forall>c \<in> set contacts. renders_ok env gr c) \<longrightarrow>
         (\<exists>outs atts w'. send_from_google_sheet env w gr
                           = (Inr (summarize contacts outs), w')
            \<and> smtp_log w' = smtp_log w @ atts
            \<and> map (\<lambda>a. msg_to (mail a)) atts = map email contacts
            \<and> map outcome_email outs = map email contacts
            \<and> map outcome_success outs
                = map (\<lambda>r. r = Delivered) (answers env (smtp_log w) atts)))"
    using send_from_google_sheet_statuses[of env w gr response contacts] by blast
  show ?thesis
    by (rule conjI[OF p1 conjI[OF p2 conjI[OF p3 conjI[OF p4 p5]]]])
qed

lemma renders_ok_single_default:
  assumes "str_format env = plain_format"
    and "req_subject rq = None" and "req_body rq = None"
  shows "renders_ok_single env rq v"
  using assms
  by (simp add: renders_ok_single_def or_default_def default_subject_renders default_body_renders)

text \<open>
  Witness of C6: one run of the demo environment for each status. The server of the
  single sends accepts the password \<open>app-password\<close> only, or refuses the recipient of
  the request; the server of the batch send refuses the first contact of the sheet.
\<close>

theorem error_statuses_witness:
  "(\<exists>e. send_single_email (demo_env None None 404 ''Not Found'' Delivered) world0
            demo_single_request = (Inl e, world0) \<and> status_of e = 400)
   \<and> (\<exists>e w'. send_single_email
                 (demo_env_with (password_server ''app-password'') (Some ''wrong''))
                 world0 demo_single_request = (Inl e, w') \<and> status_of e = 401)
   \<and> (\<exists>s w'. send_single_email
                 (demo_env_with (password_server ''app-password'') (Some ''app-password''))
                 world0 demo_single_request = (Inr s, w'))
   \<and> (\<exists>e w'. send_single_email
                 (demo_env_with (recipient_server ''a@b.com'') (Some ''app-password''))
                 world0 demo_single_request = (Inl e, w') \<and> status_of e = 500)
   \<and> (\<exists>e w'. fetch_contacts (demo_env None None 404 ''Not Found'' Delivered) world0
                 demo_request = (Inl e, w') \<and> status_of e = 400)
   \<and> (\<exists>e w'. fetch_contacts (demo_env None None 200 demo_csv_no_contact Delivered) world0
                 demo_request = (Inl e, w') \<and> status_of e = 404)
   \<and> (\<exists>e. send_from_google_sheet (demo_env None None 404 ''Not Found'' Delivered) world0
            demo_request = (Inl e, world0) \<and> status_of e = 500)
   \<and> (\<exists>outs w'. send_from_google_sheet
                   (demo_env_with (recipient_server ''a@b.com'') (Some ''app-password''))
                   world0 demo_request = (Inr (summarize demo_contacts outs), w')
         \<and> map outcome_email outs = [''a@b.com'', ''hr@initech.com'']
         \<and> map outcome_success outs = [False, True])"
proof -
  let ?none = "demo_env None None 404 ''Not Found'' Delivered"
  let ?wrong = "demo_env_with (password_server ''app-password'') (Some ''wrong'')"
  let ?right = "demo_env_with (password_server ''app-password'') (Some ''app-password'')"
  let ?picky = "demo_env_with (recipient_server ''a@b.com'') (Some ''app-password'')"
  let ?empty = "demo_env None None 200 demo_csv_no_contact Delivered"
  have rq: "req_sender_email demo_single_request = None"
    "req_sender_password demo_single_request = None"
    "req_subject demo_single_request = None" "req_body demo_single_request = None"
    "req_to_email demo_single_request = ''a@b.com''"
    by (simp_all add: demo_single_request_def)
  have gr: "sheet_subject demo_request = None" "sheet_body demo_request = None"
    by (simp_all add: demo_request_def)
  have ors: "py_or None None = None" "py_or None (Some ''me@gmail.com'') = Some ''me@gmail.com''"
    "py_or None (Some ''wrong'') = Some ''wrong''"
    "py_or None (Some ''app-password'') = Some ''app-password''"
    by (simp_all add: py_or_def truthy_def)
  have tr: "\<not> truthy None" "truthy (Some ''me@gmail.com'')" "truthy (Some ''wrong'')"
    "truthy (Some ''app-password'')"
    by (simp_all add: truthy_def)
  have emails: "map email demo_contacts = [''a@b.com'', ''hr@initech.com'']"
    and ne: "demo_contacts \<noteq> []"
    by (simp_all add: demo_contacts_def)
  note t_none = error_statuses[where env = ?none and w = world0 and rq = demo_single_request
      and gr = demo_request and response = "\<lparr>status_code = 404, resp_text = ''Not Found''\<rparr>"]
  note t_wrong = error_statuses[where env = ?wrong and w = world0 and rq = demo_single_request,
      THEN conjunct2, THEN conjunct1]
  note t_right = error_statuses[where env = ?right and w = world0 and rq = demo_single_request,
      THEN conjunct2, THEN conjunct1]
  note t_picky = error_statuses[where env = ?picky and w = world0 and rq = demo_single_request
      and gr = demo_request and response = "\<lparr>status_code = 200, resp_text = demo_csv\<rparr>"
      and contacts = demo_contacts]
  note t_empty = error_statuses[where env = ?empty and w = world0 and gr = demo_request
      and response = "\<lparr>status_code = 200, resp_text = demo_csv_no_contact\<rparr>"]
  have c1: "\<exists>e. send_single_email ?none world0 demo_single_request = (Inl e, world0)
              \<and> status_of e = 400"
    using t_none by (simp add: demo_fields rq ors tr)
  have c6: "\<exists>e. send_from_google_sheet ?none world0 demo_request = (Inl e, world0)
              \<and> status_of e = 500"
    using t_none by (simp add: demo_fields tr)
  have c4: "\<exists>e w'. fetch_contacts ?none world0 demo_request = (Inl e, w') \<and> status_of e = 400"
    using t_none by (simp add: demo_get)
  have c5: "\<exists>e w'. fetch_contacts ?empty world0 demo_request = (Inl e, w') \<and> status_of e = 404"
    using t_empty by (simp add: demo_get demo_parse_no_contact)
  \<comment> \<open>single send with a password the server rejects\<close>
  from t_wrong renders_ok_single_default[of ?wrong demo_single_request]
  obtain a r where
    run: "send_single_email ?wrong world0 demo_single_request
            = (r, world0\<lparr>smtp_log := smtp_log world0 @ [a]\<rparr>)"
    and pw: "login_password a = Some ''wrong''"
    and auth: "is_auth_error (smtp_server ?wrong (smtp_log world0) a) \<longrightarrow>
                 (\<exists>e. r = Inl e \<and> status_of e = 401)"
    by (auto simp: demo_with_fields rq ors tr)
  have "is_auth_error (smtp_server ?wrong (smtp_log world0) a)"
    by (simp add: demo_with_fields password_server_def pw)
  with auth run have c2:
    "\<exists>e w'. send_single_email ?wrong world0 demo_single_request = (Inl e, w')
       \<and> status_of e = 401" by auto
  \<comment> \<open>single send with the password the server accepts\<close>
  from t_right renders_ok_single_default[of ?right demo_single_request]
  obtain a2 r2 where
    run2: "send_single_email ?right world0 demo_single_request
            = (r2, world0\<lparr>smtp_log := smtp_log world0 @ [a2]\<rparr>)"
    and pw2: "login_password a2 = Some ''app-password''"
    and ok2: "smtp_server ?right (smtp_log world0) a2 = Delivered \<longrightarrow> (\<exists>s. r2 = Inr s)"
    by (auto simp: demo_with_fields rq ors tr)
  have "smtp_server ?right (smtp_log world0) a2 = Delivered"
    by (simp add: demo_with_fields password_server_def pw2)
  with ok2 run2 have c2':
    "\<exists>s w'. send_single_email ?right world0 demo_single_request = (Inr s, w')" by auto
  \<comment> \<open>single send to a recipient the server refuses\<close>
  from t_picky[THEN conjunct2, THEN conjunct1]
    renders_ok_single_default[of ?picky demo_single_request]
  obtain a3 r3 where
    run3: "send_single_email ?picky world0 demo_single_request
            = (r3, world0\<lparr>smtp_log := smtp_log world0 @ [a3]\<rparr>)"
    and to3: "msg_to (mail a3) = ''a@b.com''"
    and other3: "is_other_failure (smtp_server ?picky (smtp_log world0) a3) \<longrightarrow>
                 (\<exists>e. r3 = Inl e \<and> status_of e = 500)"
    by (auto simp: demo_with_fields rq ors tr)
  have "is_other_failure (smtp_server ?picky (smtp_log world0) a3)"
    by (simp add: demo_with_fields recipient_server_def to3)
  with other3 run3 have c3:
    "\<exists>e w'. send_single_email ?picky world0 demo_single_request = (Inl e, w')
       \<and> status_of e = 500" by auto
  \<comment> \<open>batch send through the server that refuses the first contact\<close>
  have renders: "\<forall>c \<in> set demo_contacts. renders_ok ?picky demo_request c"
    using renders_ok_default[of ?picky demo_request] by (simp add: demo_with_fields gr)
  have answers: "\<And>log atts. answers ?picky log atts
      = map (\<lambda>a. if msg_to (mail a) = ''a@b.com''
                   then SMTPFailure ''Recipient address rejected'' else Delivered) atts"
    by (rule answers_pointwise) (simp add: demo_with_fields recipient_server_def)
  from t_picky[THEN conjunct2, THEN conjunct2, THEN conjunct2, THEN conjunct2] renders ne
  obtain outs atts w' where
    run4: "send_from_google_sheet ?picky world0 demo_request
             = (Inr (summarize demo_contacts outs), w')"
    and t: "map (\<lambda>a. msg_to (mail a)) atts = map email demo_contacts"
    and e: "map outcome_email outs = map email demo_contacts"
    and k: "map outcome_success outs
              = map (\<lambda>r. r = Delivered) (answers ?picky (smtp_log world0) atts)"
    by (auto simp: demo_with_fields tr demo_with_get demo_with_parse)
  have "map (\<lambda>r. r = Delivered) (answers ?picky (smtp_log world0) atts)
          = map (\<lambda>t. t \<noteq> ''a@b.com'') (map (\<lambda>a. msg_to (mail a)) atts)"
    by (simp add: answers)
  also have "\<dots> = [False, True]" by (simp add: t emails)
  finally have "map outcome_success outs = [False, True]" using k by simp
  with run4 e emails have c7:
    "\<exists>outs w'. send_from_google_sheet ?picky world0 demo_request
                  = (Inr (summarize demo_contacts outs), w')
       \<and> map outcome_email outs = [''a@b.com'', ''hr@initech.com'']
       \<and> map outcome_success outs = [False, True]" by auto
  from c1 c2 c2' c3 c4 c5 c6 c7 show ?thesis by blast
qed

lemma str_int_401: "str_int 401 = ''401''"
  by (simp add: str_int_def digits.simps)

text \<open>
  Counterexample to C6 as stated: the batch send without configured credentials raises
  status 500, not 400; and with credentials the server rejects, it raises nothing and
  returns a summary whose two outcomes are failures.
\<close>

theorem batch_status_counterexample:
  "fst (send_from_google_sheet (demo_env None None 200 demo_csv Delivered) world0 demo_request)
     = Inl (HTTPException 500 ''Gmail credentials not configured'')
   \<and> fst (send_from_google_sheet
           (demo_env (Some ''me@gmail.com'') (Some ''wrong'') 200 demo_csv
              (SMTPAuthenticationError ''(535, Username and Password not accepted)''))
           world0 demo_request)
     = Inr \<lparr>summary_total = 2, summary_success = 0, summary_failed = 2,
            summary_results =
              [Failed ''a@b.com''
                 ''401: Gmail authentication failed. Check your email and app password.'',
               Failed ''hr@initech.com''
                 ''401: Gmail authentication failed. Check your email and app password.'']\<rparr>"
proof -
  let ?auth = "demo_env (Some ''me@gmail.com'') (Some ''wrong'') 200 demo_csv
                 (SMTPAuthenticationError ''(535, Username and Password not accepted)'')"
  let ?w0 = "world0\<lparr>http_log :=
               [''https://docs.google.com/spreadsheets/d/ABC123/export?format=csv&gid=0'']\<rparr>"
  have a: "fst (send_from_google_sheet (demo_env None None 200 demo_csv Delivered) world0
             demo_request) = Inl (HTTPException 500 ''Gmail credentials not configured'')"
    by (simp add: send_from_google_sheet_unconfigured demo_fields truthy_def)
  have tr: "truthy (GMAIL_ADDRESS ?auth)" "truthy (GMAIL_APP_PASSWORD ?auth)"
    by (simp_all add: demo_fields truthy_def)
  have ne: "demo_contacts \<noteq> []" by (simp add: demo_contacts_def)
  have t: "truthy (py_or None (GMAIL_ADDRESS ?auth))" "truthy (py_or None (GMAIL_APP_PASSWORD ?auth))"
    by (simp_all add: demo_fields truthy_def py_or_def)
  have loop: "fst (send_loop ?auth demo_request ?w0 demo_contacts [])
        = Inr [Failed ''a@b.com''
                 ''401: Gmail authentication failed. Check your email and app password.'',
               Failed ''hr@initech.com''
                 ''401: Gmail authentication failed. Check your email and app password.'']"
    by (simp add: demo_contacts_def send_step_def demo_fields demo_request_def or_default_def
        default_subject_renders default_body_renders send_email_session[OF t] str_int_401)
  have "send_from_google_sheet ?auth world0 demo_request =
          (case send_loop ?auth demo_request ?w0 demo_contacts [] of
             (Inl e, w2) \<Rightarrow> (Inl e, w2)
           | (Inr outs, w2) \<Rightarrow> (Inr (summarize demo_contacts outs), w2))"
    by (rule send_from_google_sheet_runs[OF tr demo_fetch demo_parse ne])
  then have b: "fst (send_from_google_sheet ?auth world0 demo_request)
     = Inr \<lparr>summary_total = 2, summary_success = 0, summary_failed = 2,
            summary_results =
              [Failed ''a@b.com''
                 ''401: Gmail authentication failed. Check your email and app password.'',
               Failed ''hr@initech.com''
                 ''401: Gmail authentication failed. Check your email and app password.'']\<rparr>"
    using loop
    by (cases "send_loop ?auth demo_request ?w0 demo_contacts []")
       (auto simp: summarize_def demo_contacts_def)
  from a b show ?thesis by (rule conjI)
qed

text \<open>Witness of C8: the preview and the single send of the demo request.\<close>

theorem preview_matches_send_witness:
  "\<exists>p a. preview_email (demo_env (Some ''me@gmail.com'') (Some ''app-password'') 200 demo_csv
                          Delivered) demo_single_request = Inr p
     \<and> preview_subject p = ''Application for SDE-1 Position at Acme''
     \<and> smtp_log (snd (send_single_email
                        (demo_env (Some ''me@gmail.com'') (Some ''app-password'') 200 demo_csv
                           Delivered) world0 demo_single_request)) = [a]
     \<and> msg_to (mail a) = ''a@b.com''
     \<and> msg_subject (mail a) = preview_subject p
     \<and> msg_body (mail a) = preview_body p"
proof -
  let ?env = "demo_env (Some ''me@gmail.com'') (Some ''app-password'') 200 demo_csv Delivered"
  have rq: "req_sender_email demo_single_request = None"
    "req_sender_password demo_single_request = None"
    "req_to_email demo_single_request = ''a@b.com''"
    by (simp_all add: demo_single_request_def)
  have tr: "truthy (py_or (req_sender_email demo_single_request) (GMAIL_ADDRESS ?env))"
    "truthy (py_or (req_sender_password demo_single_request) (GMAIL_APP_PASSWORD ?env))"
    by (simp_all add: rq demo_fields py_or_def truthy_def)
  obtain p where p: "preview_email ?env demo_single_request = Inr p"
    and subj: "preview_subject p = ''Application for SDE-1 Position at Acme''"
    by (simp add: preview_email_def demo_single_request_def demo_fields or_default_def
        and_then_def default_subject_renders default_body_renders)
  from preview_matches_send[where env = ?env and rq = demo_single_request and w = world0] tr p
  have "preview_to_email p = req_to_email demo_single_request
        \<and> smtp_log (snd (send_single_email ?env world0 demo_single_request)) =
            smtp_log world0 @
              [\<lparr>login_user = py_or (req_sender_email demo_single_request) (GMAIL_ADDRESS ?env),
                login_password = py_or (req_sender_password demo_single_request)
                                   (GMAIL_APP_PASSWORD ?env),
                mail = \<lparr>msg_from = py_or (req_sender_email demo_single_request)
                                    (GMAIL_ADDRESS ?env),
                         msg_to = preview_to_email p, msg_subject = preview_subject p,
                         msg_body = preview_body p\<rparr>\<rparr>]"
    by simp
  then show ?thesis using p subj rq by (simp add: world0_def)
qed

text \<open>
  Witness of C10: the demo request on a server without credentials, with the default
  templates.
\<close>

theorem preview_needs_no_credentials_witness:
  "send_single_email (demo_env None None 200 demo_csv Delivered) world0 demo_single_request
     = (Inl (HTTPException 400 ''Please provide your Gmail address and App Password''), world0)
   \<and> (\<exists>subject body.
         plain_format DEFAULT_SUBJECT
           [(''company_name'', Some ''Acme''), (''hr_name'', Some ''Jane Doe'')] = Inr subject
         \<and> plain_format DEFAULT_BODY
             [(''company_name'', Some ''Acme''), (''hr_name'', Some ''Jane Doe''),
              (''sender_email'', Some ''your.email@gmail.com'')] = Inr body
         \<and> preview_email (demo_env None None 200 demo_csv Delivered) demo_single_request
             = Inr \<lparr>preview_to_email = ''a@b.com'', preview_subject = subject,
                    preview_body = body\<rparr>)"
proof -
  let ?env = "demo_env None None 200 demo_csv Delivered"
  have h1: "\<not> truthy (req_sender_email demo_single_request)"
    by (simp add: demo_single_request_def truthy_def)
  have h2: "\<not> truthy (GMAIL_ADDRESS ?env)" by (simp add: demo_fields truthy_def)
  have r: "renders_ok_single ?env demo_single_request (Some ''your.email@gmail.com'')"
    by (rule renders_ok_single_default) (simp_all add: demo_fields demo_single_request_def)
  from preview_needs_no_credentials[OF h1 h2, of world0] r show ?thesis
    by (simp add: demo_fields demo_single_request_def or_default_def)
qed

end
